theory Spec2Isabelle
  imports Complex_Main
begin

section \<open>Conventions of the embedding\<close>

text \<open>
  The C++ type \<^verbatim>\<open>double\<close> is read as \<^typ>\<open>real\<close>: all arithmetic is exact. The
  division of a vector by a norm that is zero, where IEEE arithmetic yields NaN
  components, is an explicit error value of the model. The other divisions (by a mass, by
  the time step) are the division of \<^typ>\<open>real\<close>; the statements that depend on one of
  them assume its divisor not zero.
  Eigen vectors of dynamic size are lists of reals, matrices are lists of rows.
  Shared pointers are the values they point to; \<^verbatim>\<open>nullptr\<close> is \<^term>\<open>None\<close>.
  \<^verbatim>\<open>SURGSIM_ASSERT\<close> throws; a thrown assertion is the left summand of the result.
\<close>

datatype error =
    AssertionFailure
  | OutOfBoundsWrite
  | DivisionByZeroNorm
  | BadShapeCast

section \<open>Small vectors and rigid transforms\<close>

datatype Vector3d = Vector3d (vx: real) (vy: real) (vz: real)

definition vadd :: "Vector3d \<Rightarrow> Vector3d \<Rightarrow> Vector3d" where
  "vadd a b = Vector3d (vx a + vx b) (vy a + vy b) (vz a + vz b)"

definition vsub :: "Vector3d \<Rightarrow> Vector3d \<Rightarrow> Vector3d" where
  "vsub a b = Vector3d (vx a - vx b) (vy a - vy b) (vz a - vz b)"

definition vscale :: "Vector3d \<Rightarrow> real \<Rightarrow> Vector3d" where
  "vscale a k = Vector3d (vx a * k) (vy a * k) (vz a * k)"

definition vdiv :: "Vector3d \<Rightarrow> real \<Rightarrow> Vector3d" where
  "vdiv a k = Vector3d (vx a / k) (vy a / k) (vz a / k)"

definition dot :: "Vector3d \<Rightarrow> Vector3d \<Rightarrow> real" where
  "dot a b = vx a * vx b + vy a * vy b + vz a * vz b"

definition squaredNorm :: "Vector3d \<Rightarrow> real" where
  "squaredNorm a = dot a a"

definition norm3 :: "Vector3d \<Rightarrow> real" where
  "norm3 a = sqrt (squaredNorm a)"

definition vzero :: Vector3d where
  "vzero = Vector3d 0 0 0"

text \<open>Coefficient access \<^verbatim>\<open>v[i]\<close> for the axis indices 0, 1, 2.\<close>

definition coeff :: "Vector3d \<Rightarrow> nat \<Rightarrow> real" where
  "coeff a i = (if i = 0 then vx a else if i = 1 then vy a else vz a)"

definition setCoeff :: "Vector3d \<Rightarrow> nat \<Rightarrow> real \<Rightarrow> Vector3d" where
  "setCoeff a i k =
     (if i = 0 then Vector3d k (vy a) (vz a)
      else if i = 1 then Vector3d (vx a) k (vz a)
      else Vector3d (vx a) (vy a) k)"

text \<open>
  \<^verbatim>\<open>normalize()\<close> divides the vector by its norm. When the norm is zero the quotient
  is 0/0 in every component; the model reports this as \<^term>\<open>DivisionByZeroNorm\<close>.
\<close>

definition normalize :: "Vector3d \<Rightarrow> error + Vector3d" where
  "normalize a = (if norm3 a = 0 then Inl DivisionByZeroNorm else Inr (vdiv a (norm3 a)))"

text \<open>A 3x3 matrix is given by its three rows.\<close>

datatype Matrix33 = Matrix33 (row0: Vector3d) (row1: Vector3d) (row2: Vector3d)

definition mulMV :: "Matrix33 \<Rightarrow> Vector3d \<Rightarrow> Vector3d" where
  "mulMV m a = Vector3d (dot (row0 m) a) (dot (row1 m) a) (dot (row2 m) a)"

definition transpose33 :: "Matrix33 \<Rightarrow> Matrix33" where
  "transpose33 m =
     Matrix33 (Vector3d (vx (row0 m)) (vx (row1 m)) (vx (row2 m)))
              (Vector3d (vy (row0 m)) (vy (row1 m)) (vy (row2 m)))
              (Vector3d (vz (row0 m)) (vz (row1 m)) (vz (row2 m)))"

definition identity33 :: Matrix33 where
  "identity33 = Matrix33 (Vector3d 1 0 0) (Vector3d 0 1 0) (Vector3d 0 0 1)"

text \<open>
  \<^verbatim>\<open>RigidTransform3d\<close> is an Eigen isometry: a rotation (\<^verbatim>\<open>linear()\<close>) and a
  \<^verbatim>\<open>translation()\<close>. Its \<^verbatim>\<open>inverse()\<close> transposes the rotation.
\<close>

record RigidTransform3d =
  linearPart :: Matrix33
  translation :: Vector3d

definition transformPoint :: "RigidTransform3d \<Rightarrow> Vector3d \<Rightarrow> Vector3d" where
  "transformPoint t p = vadd (mulMV (linearPart t) p) (translation t)"

definition inverseTransform :: "RigidTransform3d \<Rightarrow> RigidTransform3d" where
  "inverseTransform t =
     \<lparr> linearPart = transpose33 (linearPart t),
       translation = vscale (mulMV (transpose33 (linearPart t)) (translation t)) (- 1) \<rparr>"

section \<open>Collision pairs and the narrow phase\<close>

datatype Shape =
    SphereShape (getRadius: real)
  | BoxShape (getSizeX: real) (getSizeY: real) (getSizeZ: real)
  | OtherShape

record Representation =
  getShapeType :: int
  getShape :: Shape
  getPose :: RigidTransform3d

text \<open>
  A \<^verbatim>\<open>Location\<close> holds an optional global position; a contact holds the depth, the
  normal and one location per shape.
\<close>

record Contact =
  depth :: real
  normal :: Vector3d
  penetrationPoints :: "Vector3d option \<times> Vector3d option"

record CollisionPair =
  getFirst :: Representation
  getSecond :: Representation
  getContacts :: "Contact list"

definition hasContacts :: "CollisionPair \<Rightarrow> bool" where
  "hasContacts pair = (getContacts pair \<noteq> [])"

text \<open>
  Modelled from the spec: \<^verbatim>\<open>CollisionPair::addContact\<close> and
  \<^verbatim>\<open>CollisionPair::swapRepresentations\<close> are declared in CollisionPair.h, which is not
  among the sources. The spec: a calculator "appends exactly one Contact to the pair", and
  "the representations are swapped before delegating".
\<close>

definition addContact ::
  "CollisionPair \<Rightarrow> real \<Rightarrow> Vector3d \<Rightarrow> Vector3d option \<times> Vector3d option \<Rightarrow> CollisionPair" where
  "addContact pair d n pts =
     pair\<lparr> getContacts := getContacts pair @ [\<lparr> depth = d, normal = n, penetrationPoints = pts \<rparr>] \<rparr>"

definition swapRepresentations :: "CollisionPair \<Rightarrow> CollisionPair" where
  "swapRepresentations pair = pair\<lparr> getFirst := getSecond pair, getSecond := getFirst pair \<rparr>"

subsection \<open>ContactCalculation::calculateContact\<close>

definition needsSwap :: "int \<times> int \<Rightarrow> int \<Rightarrow> int \<Rightarrow> bool" where
  "needsSwap shapeTypes firstShapeType secondShapeType =
     (firstShapeType \<noteq> secondShapeType \<and> firstShapeType = snd shapeTypes \<and>
      secondShapeType = fst shapeTypes)"

text \<open>
  The virtual members \<^verbatim>\<open>getShapeTypes\<close> and \<^verbatim>\<open>doCalculateContact\<close> of the concrete
  calculator are the first two arguments.
\<close>

definition calculateContact ::
  "int \<times> int \<Rightarrow> (CollisionPair \<Rightarrow> 'a) \<Rightarrow> CollisionPair \<Rightarrow> 'a" where
  "calculateContact getShapeTypes doCalculateContact pair =
     (if needsSwap getShapeTypes (getShapeType (getFirst pair)) (getShapeType (getSecond pair))
      then doCalculateContact (swapRepresentations pair)
      else doCalculateContact pair)"

definition pairShapeTypes :: "CollisionPair \<Rightarrow> int \<times> int" where
  "pairShapeTypes pair = (getShapeType (getFirst pair), getShapeType (getSecond pair))"

subsection \<open>SphereSphereDcdContact::doCalculateContact\<close>

definition sphereSphere_doCalculateContact :: "CollisionPair \<Rightarrow> error + CollisionPair" where
  "sphereSphere_doCalculateContact pair =
     (case (getShape (getFirst pair), getShape (getSecond pair)) of
        (SphereShape firstRadius, SphereShape secondRadius) \<Rightarrow>
          (let firstCenter = translation (getPose (getFirst pair));
               secondCenter = translation (getPose (getSecond pair));
               normal0 = vsub firstCenter secondCenter;
               dist = norm3 normal0;
               maxDist = firstRadius + secondRadius
           in if dist < maxDist
              then (case normalize normal0 of
                      Inl e \<Rightarrow> Inl e
                    | Inr n \<Rightarrow>
                        Inr (addContact pair (maxDist - dist) n
                          (Some (vsub firstCenter (vscale n firstRadius)),
                           Some (vadd secondCenter (vscale n secondRadius)))))
              else Inr pair)
      | _ \<Rightarrow> Inl BadShapeCast)"

subsection \<open>BoxSphereDcdContact::doCalculateContact\<close>

text \<open>
  Modelled from the spec: \<^verbatim>\<open>SurgSim::Math::indexOfMinimum\<close> is not among the sources.
  The spec: "minimum of (half-extent - |local coordinate|) over the three axes; ties
  resolved by axis order (x, y, z)".
\<close>

definition indexOfMinimum :: "real \<Rightarrow> real \<Rightarrow> real \<Rightarrow> nat" where
  "indexOfMinimum a b c = (if a \<le> b \<and> a \<le> c then 0 else if b \<le> c then 1 else 2)"

text \<open>
  The constants \<^verbatim>\<open>DistanceEpsilon\<close> and \<^verbatim>\<open>SquaredDistanceEpsilon\<close> of Geometry.h are
  not among the sources; they are the first two arguments.
\<close>

text \<open>
  The blocks of the routine, in the order of the source: the closest point of the box to
  the sphere centre (in box coordinates); the case of a sphere centre inside the box,
  which gives the local normal, the moved closest point and the (negative) distance; the
  case of a centre outside the box, where the normal is divided by the distance.
\<close>

definition closestPointInBox :: "Vector3d \<Rightarrow> Vector3d \<Rightarrow> Vector3d" where
  "closestPointInBox boxSize boxLocalSphereCenter =
     Vector3d (max (- vx boxSize) (min (vx boxSize) (vx boxLocalSphereCenter)))
              (max (- vy boxSize) (min (vy boxSize) (vy boxLocalSphereCenter)))
              (max (- vz boxSize) (min (vz boxSize) (vz boxLocalSphereCenter)))"

definition centerInsideBox :: "real \<Rightarrow> Vector3d \<Rightarrow> Vector3d \<Rightarrow> Vector3d \<times> Vector3d \<times> real" where
  "centerInsideBox DistanceEpsilon boxSize closestPoint =
     (let distancesFromFaces = Vector3d (vx boxSize - \<bar>vx closestPoint\<bar>)
                                        (vy boxSize - \<bar>vy closestPoint\<bar>)
                                        (vz boxSize - \<bar>vz closestPoint\<bar>);
          minimumDistanceId = indexOfMinimum (vx distancesFromFaces) (vy distancesFromFaces)
                                (vz distancesFromFaces);
          direction = (if coeff closestPoint minimumDistanceId > - DistanceEpsilon
                       then 1.0 else - 1.0)
      in (setCoeff vzero minimumDistanceId direction,
          setCoeff closestPoint minimumDistanceId (coeff boxSize minimumDistanceId * direction),
          - \<bar>coeff distancesFromFaces minimumDistanceId\<bar>))"

definition centerOutsideBox :: "Vector3d \<Rightarrow> Vector3d \<Rightarrow> error + Vector3d \<times> Vector3d \<times> real" where
  "centerOutsideBox normal0 closestPoint =
     (let distance = norm3 normal0
      in if distance = 0 then Inl DivisionByZeroNorm
         else Inr (vdiv normal0 distance, closestPoint, distance))"

definition boxSphere_doCalculateContact ::
  "real \<Rightarrow> real \<Rightarrow> CollisionPair \<Rightarrow> error + CollisionPair" where
  "boxSphere_doCalculateContact DistanceEpsilon SquaredDistanceEpsilon pair =
     (let representationBox = getFirst pair; representationSphere = getSecond pair
      in case (getShape representationBox, getShape representationSphere) of
        (BoxShape sizeX sizeY sizeZ, SphereShape radius) \<Rightarrow>
          (let sphereCenter = translation (getPose representationSphere);
               boxLocalSphereCenter =
                 transformPoint (inverseTransform (getPose representationBox)) sphereCenter;
               boxSize = Vector3d (sizeX * 0.5) (sizeY * 0.5) (sizeZ * 0.5);
               closestPoint = closestPointInBox boxSize boxLocalSphereCenter;
               normal0 = vsub closestPoint boxLocalSphereCenter;
               distanceSquared = squaredNorm normal0
           in if distanceSquared - radius * radius > SquaredDistanceEpsilon
              then Inr pair
              else
                (case (if distanceSquared \<le> SquaredDistanceEpsilon
                       then Inr (centerInsideBox DistanceEpsilon boxSize closestPoint)
                       else centerOutsideBox normal0 closestPoint) of
                   Inl e \<Rightarrow> Inl e
                 | Inr (normalLocal, closestPoint', distance) \<Rightarrow>
                     (let normalGlobal = mulMV (linearPart (getPose representationBox)) normalLocal
                      in Inr (addContact pair \<bar>distance - radius\<bar> normalGlobal
                           (Some (transformPoint (getPose representationBox) closestPoint'),
                            Some (vadd sphereCenter (vscale normalGlobal radius)))))))
      | _ \<Rightarrow> Inl BadShapeCast)"

section \<open>ConstraintImplementationFactory\<close>

text \<open>
  An implementation instance is identified by \<open>implId\<close>; its two virtual getters are
  fields. The factory's table \<^verbatim>\<open>m_implementations\<close> is an array of
  \<^verbatim>\<open>REPRESENTATION_TYPE_COUNT\<close> by \<^verbatim>\<open>MLCP_NUM_CONSTRAINT_TYPES\<close> shared pointers;
  both bounds are declared in headers that are not among the sources and are fields of the
  model.
\<close>

record ConstraintImplementation =
  implId :: nat
  getRepresentationType :: int
  getMlcpConstraintType :: int

record ConstraintImplementationFactory =
  REPRESENTATION_TYPE_COUNT :: int
  MLCP_NUM_CONSTRAINT_TYPES :: int
  m_implementations :: "int \<times> int \<Rightarrow> ConstraintImplementation option"

datatype LogEntry = WARNING_NoConstraintImplementation int int

definition getImplementation ::
  "ConstraintImplementationFactory \<Rightarrow> int \<Rightarrow> int \<Rightarrow>
     error + (ConstraintImplementation option \<times> LogEntry list)" where
  "getImplementation factory representationType constraintType =
     (if \<not> (representationType \<ge> 0 \<and> representationType < REPRESENTATION_TYPE_COUNT factory)
      then Inl AssertionFailure
      else if \<not> (constraintType \<ge> 0 \<and> constraintType < MLCP_NUM_CONSTRAINT_TYPES factory)
      then Inl AssertionFailure
      else
        (let implementation = m_implementations factory (representationType, constraintType)
         in Inr (implementation,
                 if implementation = None
                 then [WARNING_NoConstraintImplementation representationType constraintType]
                 else [])))"


section \<open>PushResults\<close>

type_synonym Vector = "real list"
type_synonym Matrix = "real list list"

definition mulMatVec :: "Matrix \<Rightarrow> Vector \<Rightarrow> Vector" where
  "mulMatVec m v = map (\<lambda>row. sum_list (map2 (*) row v)) m"

text \<open>\<^verbatim>\<open>v.block(index, 0, n, 1)\<close> and \<^verbatim>\<open>v.segment(index, n)\<close>.\<close>

definition block :: "Vector \<Rightarrow> nat \<Rightarrow> nat \<Rightarrow> Vector" where
  "block v index n = take n (drop index v)"

record MlcpSolution =
  mlcp_x :: Vector
  dofCorrection :: Vector

record 'r PhysicsManagerState =
  getRepresentations :: "'r list"
  getRepresentationsMapping :: "'r \<Rightarrow> int"
  getMlcpProblemCHt :: Matrix
  getMlcpSolution :: MlcpSolution

text \<open>
  The virtual members \<^verbatim>\<open>getNumDof\<close> and \<^verbatim>\<open>applyDofCorrection\<close> of the physics
  representations are arguments. The loop over the representations stops at the first
  failed assertion.
\<close>

fun pushToRepresentations ::
  "('r \<Rightarrow> nat) \<Rightarrow> (real \<Rightarrow> Vector \<Rightarrow> 'r \<Rightarrow> 'r) \<Rightarrow> ('r \<Rightarrow> int) \<Rightarrow> real \<Rightarrow> Vector \<Rightarrow>
     'r list \<Rightarrow> error + 'r list" where
  "pushToRepresentations getNumDof applyDofCorrection getValue dt correction [] = Inr []"
| "pushToRepresentations getNumDof applyDofCorrection getValue dt correction (r # rs) =
     (let index = getValue r
      in if \<not> index \<ge> 0 then Inl AssertionFailure
         else
           (let r' = applyDofCorrection dt (block correction (nat index) (getNumDof r)) r
            in case pushToRepresentations getNumDof applyDofCorrection getValue dt correction rs of
                 Inl e \<Rightarrow> Inl e
               | Inr rs' \<Rightarrow> Inr (r' # rs')))"

definition doUpdate ::
  "('r \<Rightarrow> nat) \<Rightarrow> (real \<Rightarrow> Vector \<Rightarrow> 'r \<Rightarrow> 'r) \<Rightarrow> real \<Rightarrow> 'r PhysicsManagerState \<Rightarrow>
     error + 'r PhysicsManagerState" where
  "doUpdate getNumDof applyDofCorrection dt state =
     (let lambda = mlcp_x (getMlcpSolution state)
      in if length lambda = 0 then Inr state
         else
           (let CHt = getMlcpProblemCHt state;
                correction = mulMatVec CHt lambda;
                result = state\<lparr> getMlcpSolution :=
                           (getMlcpSolution state)\<lparr> dofCorrection := correction \<rparr> \<rparr>
            in case pushToRepresentations getNumDof applyDofCorrection
                      (getRepresentationsMapping result) dt correction (getRepresentations result) of
                 Inl e \<Rightarrow> Inl e
               | Inr reps \<Rightarrow> Inr (result\<lparr> getRepresentations := reps \<rparr>)))"

section \<open>ODE solvers\<close>

definition vecAdd :: "Vector \<Rightarrow> Vector \<Rightarrow> Vector" where
  "vecAdd a b = map2 (+) a b"

definition vecScale :: "real \<Rightarrow> Vector \<Rightarrow> Vector" where
  "vecScale k a = map (\<lambda>c. k * c) a"

definition vecDiv :: "Vector \<Rightarrow> real \<Rightarrow> Vector" where
  "vecDiv a k = map (\<lambda>c. c / k) a"

definition matScale :: "Matrix \<Rightarrow> real \<Rightarrow> Matrix" where
  "matScale m k = map (map (\<lambda>c. c * k)) m"

record OdeState =
  getPositions :: Vector
  getVelocities :: Vector
  getAccelerations :: Vector

text \<open>The virtual members of \<^verbatim>\<open>OdeEquation\<close> that the solvers call.\<close>

record OdeEquation =
  computeF :: "OdeState \<Rightarrow> Vector"
  computeM :: "OdeState \<Rightarrow> Matrix"

record OdeSolver =
  m_MsystemMatrix :: Matrix
  m_systemMatrix :: Matrix
  m_compliance :: Matrix

record LinearModifiedExplicitEuler = OdeSolver +
  m_initialized :: bool

text \<open>
  The functor \<^verbatim>\<open>m_solveAndInverse\<close> (LinearSolveAndInverse.h, not among the sources)
  is the first argument: from a matrix and a right-hand side it returns the solution and
  the inverse matrix. \<^verbatim>\<open>deltaV\<close> is a reference to the accelerations of the new state.
\<close>

definition ModifiedExplicitEuler_solve ::
  "(Matrix \<Rightarrow> Vector \<Rightarrow> Vector \<times> Matrix) \<Rightarrow> OdeEquation \<Rightarrow> 'a OdeSolver_scheme \<Rightarrow>
     real \<Rightarrow> OdeState \<Rightarrow> OdeState \<Rightarrow> OdeState \<times> 'a OdeSolver_scheme" where
  "ModifiedExplicitEuler_solve m_solveAndInverse m_equation solver dt currentState newState =
     (let f = computeF m_equation currentState;
          M = computeM m_equation currentState;
          MsystemMatrix = matScale M (1.0 / dt);
          (deltaV, compliance) = m_solveAndInverse MsystemMatrix f;
          solver' = solver\<lparr> m_MsystemMatrix := MsystemMatrix, m_systemMatrix := MsystemMatrix,
                            m_compliance := compliance \<rparr>;
          newState1 = newState\<lparr> getAccelerations := deltaV \<rparr>;
          newState2 = newState1\<lparr> getVelocities :=
                        vecAdd (getVelocities currentState) (getAccelerations newState1) \<rparr>;
          newState3 = newState2\<lparr> getPositions :=
                        vecAdd (getPositions currentState) (vecScale dt (getVelocities newState2)) \<rparr>;
          newState4 = newState3\<lparr> getAccelerations := vecDiv (getAccelerations newState3) dt \<rparr>
      in (newState4, solver'))"

definition LinearModifiedExplicitEuler_solve ::
  "(Matrix \<Rightarrow> Vector \<Rightarrow> Vector \<times> Matrix) \<Rightarrow> OdeEquation \<Rightarrow> LinearModifiedExplicitEuler \<Rightarrow>
     real \<Rightarrow> OdeState \<Rightarrow> OdeState \<Rightarrow> OdeState \<times> LinearModifiedExplicitEuler" where
  "LinearModifiedExplicitEuler_solve m_solveAndInverse m_equation solver dt currentState newState =
     (if \<not> m_initialized solver
      then
        (let (newState', solver') =
               ModifiedExplicitEuler_solve m_solveAndInverse m_equation solver dt currentState newState
         in (newState', solver'\<lparr> m_initialized := True \<rparr>))
      else
        (let f = computeF m_equation currentState;
             deltaV = mulMatVec (m_compliance solver) f;
             newState1 = newState\<lparr> getVelocities := vecAdd (getVelocities currentState) deltaV \<rparr>;
             newState2 = newState1\<lparr> getPositions :=
                           vecAdd (getPositions currentState) (vecScale dt (getVelocities newState1)) \<rparr>;
             newState3 = newState2\<lparr> getAccelerations := vecDiv (getAccelerations newState2) dt \<rparr>
         in (newState3, solver)))"

text \<open>
  Consecutive calls of a solver: each call integrates the state that the previous call
  produced. The caller supplies the buffer that each call writes its new state into.
\<close>

fun ModifiedExplicitEuler_run ::
  "(Matrix \<Rightarrow> Vector \<Rightarrow> Vector \<times> Matrix) \<Rightarrow> OdeEquation \<Rightarrow> real \<Rightarrow>
     'a OdeSolver_scheme \<Rightarrow> OdeState \<Rightarrow> OdeState list \<Rightarrow> OdeState" where
  "ModifiedExplicitEuler_run sai eq dt solver currentState [] = currentState"
| "ModifiedExplicitEuler_run sai eq dt solver currentState (newState # buffers) =
     (case ModifiedExplicitEuler_solve sai eq solver dt currentState newState of
        (newState', solver') \<Rightarrow> ModifiedExplicitEuler_run sai eq dt solver' newState' buffers)"

fun LinearModifiedExplicitEuler_run ::
  "(Matrix \<Rightarrow> Vector \<Rightarrow> Vector \<times> Matrix) \<Rightarrow> OdeEquation \<Rightarrow> real \<Rightarrow>
     LinearModifiedExplicitEuler \<Rightarrow> OdeState \<Rightarrow> OdeState list \<Rightarrow> OdeState" where
  "LinearModifiedExplicitEuler_run sai eq dt solver currentState [] = currentState"
| "LinearModifiedExplicitEuler_run sai eq dt solver currentState (newState # buffers) =
     (case LinearModifiedExplicitEuler_solve sai eq solver dt currentState newState of
        (newState', solver') \<Rightarrow> LinearModifiedExplicitEuler_run sai eq dt solver' newState' buffers)"

text \<open>
  Modelled from the spec: the diagonal specialisation of \<^verbatim>\<open>LinearSolveAndInverse\<close> is
  not among the sources. The spec: the specialisations "produce x and inverse matching a
  reference dense solve" for "matrices of matching structure"; for a diagonal matrix that
  is a division by the diagonal entry.
\<close>

definition solveAndInverseDiagonal :: "Matrix \<Rightarrow> Vector \<Rightarrow> Vector \<times> Matrix" where
  "solveAndInverseDiagonal A b =
     (map (\<lambda>i. b ! i / (A ! i ! i)) [0..<length b],
      map (\<lambda>i. map (\<lambda>j. if i = j then 1 / (A ! i ! i) else 0) [0..<length A]) [0..<length A])"

section \<open>MassSpringRepresentation\<close>

datatype IntegrationScheme =
    INTEGRATIONSCHEME_EXPLICIT_EULER
  | INTEGRATIONSCHEME_MODIFIED_EXPLICIT_EULER

record MassParameter =
  getMass :: real
  getVelocity :: Vector3d

record Vertex =
  position :: Vector3d
  vertexData :: MassParameter

record LinearSpringParameter =
  getStiffness :: real
  getDamping :: real
  getInitialLength :: real

record Edge =
  vertices :: "nat \<times> nat"
  edgeData :: LinearSpringParameter

record Mesh =
  getVertices :: "Vertex list"
  getEdges :: "Edge list"

record RayleighDamping =
  massCoefficient :: real
  stiffnessCoefficient :: real

record MassSpringRepresentation =
  isActive :: bool
  isGravityEnabled :: bool
  getGravity :: Vector3d
  m_rayleighDamping :: RayleighDamping
  m_boundaryConditions :: "nat list"
  m_integrationScheme :: IntegrationScheme
  m_finalState :: Mesh
  m_x :: Vector
  m_xPrevious :: Vector
  m_v :: Vector
  m_f :: Vector

definition getNumMasses :: "MassSpringRepresentation \<Rightarrow> nat" where
  "getNumMasses s = length (getVertices (m_finalState s))"

definition getMassParameter :: "MassSpringRepresentation \<Rightarrow> nat \<Rightarrow> MassParameter" where
  "getMassParameter s nodeId = vertexData (getVertices (m_finalState s) ! nodeId)"

text \<open>\<^verbatim>\<open>v.segment(3 * nodeId, 3)\<close>, read and written.\<close>

definition segment3 :: "Vector \<Rightarrow> nat \<Rightarrow> Vector3d" where
  "segment3 v nodeId = Vector3d (v ! (3 * nodeId)) (v ! (3 * nodeId + 1)) (v ! (3 * nodeId + 2))"

definition setSegment3 :: "Vector \<Rightarrow> nat \<Rightarrow> Vector3d \<Rightarrow> Vector" where
  "setSegment3 v nodeId a =
     v[3 * nodeId := vx a, 3 * nodeId + 1 := vy a, 3 * nodeId + 2 := vz a]"

definition setZero :: "Vector \<Rightarrow> Vector" where
  "setZero v = map (\<lambda>c. 0) v"

definition addGravity :: "MassSpringRepresentation \<Rightarrow> Vector \<Rightarrow> Vector" where
  "addGravity s f =
     fold (\<lambda>nodeId f'. setSegment3 f' nodeId
             (vscale (getGravity s) (getMass (getMassParameter s nodeId))))
       [0..<getNumMasses s] f"

definition addRayleighDampingForce ::
  "MassSpringRepresentation \<Rightarrow> Vector \<Rightarrow> Vector \<Rightarrow> real \<Rightarrow> Vector" where
  "addRayleighDampingForce s f v scale =
     (let c = massCoefficient (m_rayleighDamping s)
      in if c \<noteq> 0
         then fold (\<lambda>nodeID f'.
                f'[3 * nodeID := f' ! (3 * nodeID)
                     - scale * c * getMass (getMassParameter s nodeID) * v ! (3 * nodeID),
                   3 * nodeID + 1 := f' ! (3 * nodeID + 1)
                     - scale * c * getMass (getMassParameter s nodeID) * v ! (3 * nodeID + 1),
                   3 * nodeID + 2 := f' ! (3 * nodeID + 2)
                     - scale * c * getMass (getMassParameter s nodeID) * v ! (3 * nodeID + 2)])
              [0..<getNumMasses s] f
         else f)"

text \<open>
  \<^verbatim>\<open>LinearSpringParameter::getF\<close> is not among the sources; the force of a spring, from
  the positions and velocities of its two nodes, is the argument \<open>getF\<close>.
\<close>

definition addSpringForces ::
  "(LinearSpringParameter \<Rightarrow> Vector3d \<Rightarrow> Vector3d \<Rightarrow> Vector3d \<Rightarrow> Vector3d \<Rightarrow> Vector3d) \<Rightarrow>
     MassSpringRepresentation \<Rightarrow> Vector \<Rightarrow> Vector" where
  "addSpringForces getF s f =
     fold (\<lambda>edge f'.
             (let nodeId0 = fst (vertices edge);
                  nodeId1 = snd (vertices edge);
                  force = getF (edgeData edge)
                            (segment3 (m_x s) nodeId0) (segment3 (m_x s) nodeId1)
                            (segment3 (m_v s) nodeId0) (segment3 (m_v s) nodeId1);
                  f1 = setSegment3 f' nodeId0 (vadd (segment3 f' nodeId0) force)
              in setSegment3 f1 nodeId1 (vsub (segment3 f1 nodeId1) force)))
       (getEdges (m_finalState s)) f"

definition divideByMass :: "MassSpringRepresentation \<Rightarrow> Vector \<Rightarrow> Vector" where
  "divideByMass s f =
     fold (\<lambda>nodeId f'. setSegment3 f' nodeId
             (vdiv (segment3 f' nodeId) (getMass (getMassParameter s nodeId))))
       [0..<getNumMasses s] f"

text \<open>Steps 1 to 4 of \<^verbatim>\<open>updateEulerExplicit\<close>: the accelerations, stored in \<^verbatim>\<open>m_f\<close>.\<close>

definition computeAccelerations ::
  "(LinearSpringParameter \<Rightarrow> Vector3d \<Rightarrow> Vector3d \<Rightarrow> Vector3d \<Rightarrow> Vector3d \<Rightarrow> Vector3d) \<Rightarrow>
     MassSpringRepresentation \<Rightarrow> Vector" where
  "computeAccelerations getF s =
     (let f0 = setZero (m_f s);
          f1 = (if isGravityEnabled s then addGravity s f0 else f0);
          f2 = addRayleighDampingForce s f1 (m_v s) 1.0;
          f3 = addSpringForces getF s f2
      in divideByMass s f3)"

text \<open>
  The boundary conditions: the three components of a listed node are set to zero. The
  modified scheme does this to the velocities, the explicit scheme to the forces and the
  velocities in one loop.
\<close>

definition zeroNode :: "Vector \<Rightarrow> nat \<Rightarrow> Vector" where
  "zeroNode v bc = v[3 * bc + 0 := 0.0, 3 * bc + 1 := 0.0, 3 * bc + 2 := 0.0]"

definition zeroBoundaryVelocities :: "nat list \<Rightarrow> Vector \<Rightarrow> Vector" where
  "zeroBoundaryVelocities bcs v = fold (\<lambda>bc v'. zeroNode v' bc) bcs v"

definition zeroBoundaryForcesAndVelocities ::
  "nat list \<Rightarrow> Vector \<times> Vector \<Rightarrow> Vector \<times> Vector" where
  "zeroBoundaryForcesAndVelocities bcs fv =
     fold (\<lambda>bc (f', v'). (zeroNode f' bc, zeroNode v' bc)) bcs fv"

definition updateEulerExplicit ::
  "(LinearSpringParameter \<Rightarrow> Vector3d \<Rightarrow> Vector3d \<Rightarrow> Vector3d \<Rightarrow> Vector3d \<Rightarrow> Vector3d) \<Rightarrow>
     MassSpringRepresentation \<Rightarrow> real \<Rightarrow> bool \<Rightarrow> MassSpringRepresentation" where
  "updateEulerExplicit getF s dt useModifiedEuler =
     (let f = computeAccelerations getF s
      in if useModifiedEuler
         then
           (let v1 = vecAdd (m_v s) (vecScale dt f);
                v2 = zeroBoundaryVelocities (m_boundaryConditions s) v1;
                x1 = vecAdd (m_x s) (vecScale dt v2)
            in s\<lparr> m_f := f, m_v := v2, m_x := x1 \<rparr>)
         else
           (let (f1, v1) = zeroBoundaryForcesAndVelocities (m_boundaryConditions s) (f, m_v s);
                x1 = vecAdd (m_x s) (vecScale dt v1);
                v2 = vecAdd v1 (vecScale dt f1)
            in s\<lparr> m_f := f1, m_v := v2, m_x := x1 \<rparr>))"

definition beforeUpdate :: "MassSpringRepresentation \<Rightarrow> real \<Rightarrow> MassSpringRepresentation" where
  "beforeUpdate s dt = (if \<not> isActive s then s else s\<lparr> m_xPrevious := m_x s \<rparr>)"

definition update ::
  "(LinearSpringParameter \<Rightarrow> Vector3d \<Rightarrow> Vector3d \<Rightarrow> Vector3d \<Rightarrow> Vector3d \<Rightarrow> Vector3d) \<Rightarrow>
     MassSpringRepresentation \<Rightarrow> real \<Rightarrow> MassSpringRepresentation" where
  "update getF s dt =
     (if \<not> isActive s then s
      else if m_integrationScheme s = INTEGRATIONSCHEME_EXPLICIT_EULER
      then updateEulerExplicit getF s dt False
      else if m_integrationScheme s = INTEGRATIONSCHEME_MODIFIED_EXPLICIT_EULER
      then updateEulerExplicit getF s dt True
      else s)"

definition afterUpdate :: "MassSpringRepresentation \<Rightarrow> real \<Rightarrow> MassSpringRepresentation" where
  "afterUpdate s dt =
     (if \<not> isActive s then s
      else s\<lparr> m_finalState := (m_finalState s)\<lparr> getVertices :=
             map (\<lambda>(vertexId, vertex).
                    vertex\<lparr> position := segment3 (m_x s) vertexId,
                            vertexData := (vertexData vertex)\<lparr> getVelocity := segment3 (m_v s) vertexId \<rparr> \<rparr>)
                 (enumerate 0 (getVertices (m_finalState s))) \<rparr> \<rparr>)"

definition MassSpring_applyDofCorrection ::
  "MassSpringRepresentation \<Rightarrow> real \<Rightarrow> Vector \<Rightarrow> MassSpringRepresentation" where
  "MassSpring_applyDofCorrection s dt correctionBlock = (if \<not> isActive s then s else s)"

text \<open>
  One tick of a representation, as the physics manager sequences it: free motion
  (\<^verbatim>\<open>beforeUpdate\<close>, \<^verbatim>\<open>update\<close>), the correction pushed back by the constraint solve,
  \<^verbatim>\<open>afterUpdate\<close>. A run takes the time step and the correction block of every tick.
\<close>

definition tick ::
  "(LinearSpringParameter \<Rightarrow> Vector3d \<Rightarrow> Vector3d \<Rightarrow> Vector3d \<Rightarrow> Vector3d \<Rightarrow> Vector3d) \<Rightarrow>
     MassSpringRepresentation \<Rightarrow> real \<times> Vector \<Rightarrow> MassSpringRepresentation" where
  "tick getF s input =
     afterUpdate
       (MassSpring_applyDofCorrection (update getF (beforeUpdate s (fst input)) (fst input))
          (fst input) (snd input))
       (fst input)"

definition run ::
  "(LinearSpringParameter \<Rightarrow> Vector3d \<Rightarrow> Vector3d \<Rightarrow> Vector3d \<Rightarrow> Vector3d \<Rightarrow> Vector3d) \<Rightarrow>
     MassSpringRepresentation \<Rightarrow> (real \<times> Vector) list \<Rightarrow> MassSpringRepresentation" where
  "run getF s inputs = foldl (tick getF) s inputs"

text \<open>
  The total force on the nodes at a state: \<^verbatim>\<open>m_f\<close> after steps 1 to 3 of
  \<^verbatim>\<open>updateEulerExplicit\<close> (gravity, Rayleigh damping, springs), before step 4 divides it
  by the masses. A run is under zero total force when that vector is zero at the state
  each of its ticks starts from.
\<close>

definition computeForces ::
  "(LinearSpringParameter \<Rightarrow> Vector3d \<Rightarrow> Vector3d \<Rightarrow> Vector3d \<Rightarrow> Vector3d \<Rightarrow> Vector3d) \<Rightarrow>
     MassSpringRepresentation \<Rightarrow> Vector" where
  "computeForces getF s =
     (let f0 = setZero (m_f s);
          f1 = (if isGravityEnabled s then addGravity s f0 else f0);
          f2 = addRayleighDampingForce s f1 (m_v s) 1.0
      in addSpringForces getF s f2)"

fun zeroTotalForce ::
  "(LinearSpringParameter \<Rightarrow> Vector3d \<Rightarrow> Vector3d \<Rightarrow> Vector3d \<Rightarrow> Vector3d \<Rightarrow> Vector3d) \<Rightarrow>
     MassSpringRepresentation \<Rightarrow> (real \<times> Vector) list \<Rightarrow> bool" where
  "zeroTotalForce getF s [] = True"
| "zeroTotalForce getF s (input # inputs) =
     (computeForces getF s = replicate (length (m_f s)) 0 \<and>
      zeroTotalForce getF (tick getF s input) inputs)"

section \<open>Concrete inputs\<close>

definition makePose :: "Vector3d \<Rightarrow> RigidTransform3d" where
  "makePose t = \<lparr> linearPart = identity33, translation = t \<rparr>"

definition makeRepresentation :: "int \<Rightarrow> Shape \<Rightarrow> Vector3d \<Rightarrow> Representation" where
  "makeRepresentation shapeType shape center =
     \<lparr> getShapeType = shapeType, getShape = shape, getPose = makePose center \<rparr>"

definition makePair :: "Representation \<Rightarrow> Representation \<Rightarrow> CollisionPair" where
  "makePair a b = \<lparr> getFirst = a, getSecond = b, getContacts = [] \<rparr>"



definition exampleManagerState :: "Vector \<Rightarrow> Vector PhysicsManagerState" where
  "exampleManagerState lambda =
     \<lparr> getRepresentations = [[1, 2], [3]],
       getRepresentationsMapping = (\<lambda>r. if length r = 2 then 0 else 2),
       getMlcpProblemCHt = [[1], [2], [3]],
       getMlcpSolution = \<lparr> mlcp_x = lambda, dofCorrection = [] \<rparr> \<rparr>"

definition noSpringForce ::
  "LinearSpringParameter \<Rightarrow> Vector3d \<Rightarrow> Vector3d \<Rightarrow> Vector3d \<Rightarrow> Vector3d \<Rightarrow> Vector3d" where
  "noSpringForce spring xA xB vA vB = vzero"

text \<open>
  Two masses of 2 at (0,0,0) and (1,0,0), no spring, no damping; node 0 is a boundary
  condition.
\<close>

definition exampleMassSpring ::
  "bool \<Rightarrow> IntegrationScheme \<Rightarrow> Vector \<Rightarrow> MassSpringRepresentation" where
  "exampleMassSpring gravityEnabled scheme v =
     \<lparr> isActive = True, isGravityEnabled = gravityEnabled,
       getGravity = Vector3d 0 (- 981 / 100) 0,
       m_rayleighDamping = \<lparr> massCoefficient = 0, stiffnessCoefficient = 0 \<rparr>,
       m_boundaryConditions = [0],
       m_integrationScheme = scheme,
       m_finalState =
         \<lparr> getVertices =
             [\<lparr> position = Vector3d 0 0 0, vertexData = \<lparr> getMass = 2, getVelocity = vzero \<rparr> \<rparr>,
              \<lparr> position = Vector3d 1 0 0, vertexData = \<lparr> getMass = 2, getVelocity = vzero \<rparr> \<rparr>],
           getEdges = [] \<rparr>,
       m_x = [0, 0, 0, 1, 0, 0], m_xPrevious = [0, 0, 0, 1, 0, 0],
       m_v = v, m_f = [0, 0, 0, 0, 0, 0] \<rparr>"

text \<open>
  A spring force for the concrete inputs: the stiffness times the elongation, along the
  direction from the first node to the second. Three masses of 2 at (0,0,0), (1,0,0) and
  (2,0,0); a spring of stiffness 10 and rest length 1 joins nodes 1 and 2; node 0 is a
  boundary condition; no gravity, no damping.
\<close>

definition exampleSpringForce ::
  "LinearSpringParameter \<Rightarrow> Vector3d \<Rightarrow> Vector3d \<Rightarrow> Vector3d \<Rightarrow> Vector3d \<Rightarrow> Vector3d" where
  "exampleSpringForce spring xA xB vA vB =
     vscale (vdiv (vsub xB xA) (norm3 (vsub xB xA)))
       (getStiffness spring * (norm3 (vsub xB xA) - getInitialLength spring))"

definition exampleChain :: "Vector \<Rightarrow> Vector \<Rightarrow> MassSpringRepresentation" where
  "exampleChain x v =
     \<lparr> isActive = True, isGravityEnabled = False,
       getGravity = Vector3d 0 (- 981 / 100) 0,
       m_rayleighDamping = \<lparr> massCoefficient = 0, stiffnessCoefficient = 0 \<rparr>,
       m_boundaryConditions = [0],
       m_integrationScheme = INTEGRATIONSCHEME_MODIFIED_EXPLICIT_EULER,
       m_finalState =
         \<lparr> getVertices =
             [\<lparr> position = Vector3d 0 0 0, vertexData = \<lparr> getMass = 2, getVelocity = vzero \<rparr> \<rparr>,
              \<lparr> position = Vector3d 1 0 0, vertexData = \<lparr> getMass = 2, getVelocity = vzero \<rparr> \<rparr>,
              \<lparr> position = Vector3d 2 0 0, vertexData = \<lparr> getMass = 2, getVelocity = vzero \<rparr> \<rparr>],
           getEdges =
             [\<lparr> vertices = (1, 2),
                edgeData = \<lparr> getStiffness = 10, getDamping = 0, getInitialLength = 1 \<rparr> \<rparr>] \<rparr>,
       m_x = x, m_xPrevious = x, m_v = v, m_f = [0, 0, 0, 0, 0, 0, 0, 0, 0] \<rparr>"

text \<open>A system of one degree of freedom: mass 2 and a constant force.\<close>

definition exampleEquation :: "real \<Rightarrow> OdeEquation" where
  "exampleEquation force = \<lparr> computeF = (\<lambda>state. [force]), computeM = (\<lambda>state. [[2]]) \<rparr>"

definition exampleState :: "real \<Rightarrow> real \<Rightarrow> OdeState" where
  "exampleState p v = \<lparr> getPositions = [p], getVelocities = [v], getAccelerations = [0] \<rparr>"

definition freshSolver :: LinearModifiedExplicitEuler where
  "freshSolver = \<lparr> m_MsystemMatrix = [], m_systemMatrix = [], m_compliance = [],
                   m_initialized = False \<rparr>"


section \<open>Contact calculation: swapping of asymmetric pairs\<close>

lemma needsSwap_iff:
  "needsSwap T (getShapeType (getFirst pair)) (getShapeType (getSecond pair)) \<longleftrightarrow>
     pairShapeTypes pair = (snd T, fst T) \<and> fst T \<noteq> snd T"
  by (auto simp add: needsSwap_def pairShapeTypes_def)

lemma pairShapeTypes_swapRepresentations:
  "pairShapeTypes (swapRepresentations pair) = (snd (pairShapeTypes pair), fst (pairShapeTypes pair))"
  by (simp add: pairShapeTypes_def swapRepresentations_def)

text \<open>
  C9, as the claim states it, fails: a pair whose shape types are not the declared ones,
  and not the declared ones reversed either, is delegated as it is. A calculator declared
  for the types (1, 2) that is given a pair of types (3, 2) hands that very pair, with types
  (3, 2), to its \<^verbatim>\<open>doCalculateContact\<close>.
\<close>

theorem calculateContact_unrelated_types_counterexample:
  "pairShapeTypes (makePair (makeRepresentation 3 OtherShape vzero)
                            (makeRepresentation 2 OtherShape vzero)) \<noteq> (1, 2) \<and>
   calculateContact (1, 2) pairShapeTypes
     (makePair (makeRepresentation 3 OtherShape vzero) (makeRepresentation 2 OtherShape vzero))
     = (3, 2) \<and>
   calculateContact (1, 2) (\<lambda>pair. pair)
     (makePair (makeRepresentation 3 OtherShape vzero) (makeRepresentation 2 OtherShape vzero))
     = makePair (makeRepresentation 3 OtherShape vzero) (makeRepresentation 2 OtherShape vzero)"
  by (simp add: calculateContact_def needsSwap_def pairShapeTypes_def makePair_def
      makeRepresentation_def)

text \<open>
  C9, amended: \<^verbatim>\<open>calculateContact\<close> swaps the representations exactly when the pair's
  shape types are the declared types reversed and the two declared types differ, and
  delegates the pair unchanged otherwise. So a pair whose types are the declared ones
  reversed reaches \<^verbatim>\<open>doCalculateContact\<close> (here any function \<open>g\<close>) swapped, with its
  shape types in the declared order, and a pair already in the declared order reaches it
  as it is.
\<close>

theorem calculateContact_swaps_reversed_pair:
  "calculateContact T g pair =
     (if pairShapeTypes pair = (snd T, fst T) \<and> fst T \<noteq> snd T
      then g (swapRepresentations pair) else g pair) \<and>
   (pairShapeTypes pair = (snd T, fst T) \<longrightarrow> pairShapeTypes (swapRepresentations pair) = T) \<and>
   (pairShapeTypes pair = T \<longrightarrow> calculateContact T g pair = g pair)"
proof (intro conjI impI)
  show "calculateContact T g pair =
     (if pairShapeTypes pair = (snd T, fst T) \<and> fst T \<noteq> snd T
      then g (swapRepresentations pair) else g pair)"
    unfolding calculateContact_def needsSwap_iff by (rule refl)
next
  assume "pairShapeTypes pair = (snd T, fst T)"
  then show "pairShapeTypes (swapRepresentations pair) = T"
    by (simp add: pairShapeTypes_swapRepresentations)
next
  assume "pairShapeTypes pair = T"
  then have "\<not> (pairShapeTypes pair = (snd T, fst T) \<and> fst T \<noteq> snd T)"
    by (cases T) simp
  then show "calculateContact T g pair = g pair"
    unfolding calculateContact_def needsSwap_iff by (rule if_not_P)
qed

theorem calculateContact_swaps_reversed_pair_witness:
  "pairShapeTypes (makePair (makeRepresentation 2 OtherShape vzero)
                            (makeRepresentation 1 OtherShape vzero)) = (snd (1, 2), fst (1, 2)) \<and>
   calculateContact (1, 2) pairShapeTypes
     (makePair (makeRepresentation 2 OtherShape vzero) (makeRepresentation 1 OtherShape vzero))
     = (1, 2) \<and>
   pairShapeTypes (makePair (makeRepresentation 1 OtherShape vzero)
                            (makeRepresentation 2 OtherShape vzero)) = (1, 2) \<and>
   calculateContact (1, 2) pairShapeTypes
     (makePair (makeRepresentation 1 OtherShape vzero) (makeRepresentation 2 OtherShape vzero))
     = (1, 2)"
  using calculateContact_swaps_reversed_pair [of "(1, 2)" pairShapeTypes
      "makePair (makeRepresentation 2 OtherShape vzero) (makeRepresentation 1 OtherShape vzero)"]
    calculateContact_swaps_reversed_pair [of "(1, 2)" pairShapeTypes
      "makePair (makeRepresentation 1 OtherShape vzero) (makeRepresentation 2 OtherShape vzero)"]
  by (simp add: pairShapeTypes_def makePair_def makeRepresentation_def swapRepresentations_def)

section \<open>ConstraintImplementationFactory: registration and lookup\<close>



text \<open>
  Outside the claim: the lookup of a pair of types out of range throws its assertion, and
  a later registration for the same pair of types replaces the earlier one.
\<close>

lemma getImplementation_out_of_range:
  "r < 0 \<or> REPRESENTATION_TYPE_COUNT factory \<le> r \<or> c < 0 \<or> MLCP_NUM_CONSTRAINT_TYPES factory \<le> c \<Longrightarrow>
   getImplementation factory r c = Inl AssertionFailure"
  by (auto simp add: getImplementation_def)

section \<open>PushResults: no solved multipliers\<close>

text \<open>
  C5: when the vector \<open>x\<close> of the MLCP solution is empty, \<^verbatim>\<open>doUpdate\<close> returns the state
  it was given: the correction vector is not recomputed and no representation is touched,
  whatever \<^verbatim>\<open>applyDofCorrection\<close> would do.
\<close>

theorem doUpdate_empty_solution:
  "mlcp_x (getMlcpSolution state) = [] \<Longrightarrow>
   doUpdate getNumDof applyDofCorrection dt state = Inr state"
  by (simp add: doUpdate_def)

theorem doUpdate_empty_solution_witness:
  "mlcp_x (getMlcpSolution (exampleManagerState [])) = [] \<and>
   doUpdate length (\<lambda>dt correction r. vecAdd r correction) (1 / 2) (exampleManagerState [])
     = Inr (exampleManagerState [])"
  using doUpdate_empty_solution [of "exampleManagerState []" length
      "\<lambda>dt correction r. vecAdd r correction" "1 / 2"]
  by (simp add: exampleManagerState_def)

text \<open>
  For contrast, with one solved multiplier the same state is changed: the correction is
  \<open>CHt\<close> times \<open>x\<close>, and each representation receives its block of it.
\<close>

lemma doUpdate_nonempty_example:
  "doUpdate length (\<lambda>dt correction r. vecAdd r correction) (1 / 2) (exampleManagerState [10])
     = Inr ((exampleManagerState [10])
         \<lparr> getRepresentations := [[11, 22], [33]],
           getMlcpSolution := \<lparr> mlcp_x = [10], dofCorrection = [10, 20, 30] \<rparr> \<rparr>)"
  by (simp add: doUpdate_def exampleManagerState_def mulMatVec_def block_def vecAdd_def)

section \<open>MassSpringRepresentation: corrections are discarded\<close>

text \<open>
  C10: \<^verbatim>\<open>MassSpringRepresentation::applyDofCorrection\<close> changes nothing, for every time
  step, every correction block and every representation, active or not.
\<close>

theorem MassSpring_applyDofCorrection_noop:
  "MassSpring_applyDofCorrection s dt correctionBlock = s"
  by (simp add: MassSpring_applyDofCorrection_def)

section \<open>Vector facts used by the contact calculators\<close>

lemma squaredNorm_nonneg: "0 \<le> squaredNorm a"
  by (simp add: squaredNorm_def dot_def)

lemma norm3_eq_0_iff: "norm3 a = 0 \<longleftrightarrow> a = vzero"
proof -
  have "squaredNorm a = 0 \<longleftrightarrow> vx a = 0 \<and> vy a = 0 \<and> vz a = 0"
    unfolding squaredNorm_def dot_def
    by (metis add_nonneg_eq_0_iff mult_eq_0_iff zero_le_square add_nonneg_nonneg)
  then show ?thesis
    by (cases a) (simp add: norm3_def vzero_def)
qed

lemma vsub_eq_vzero_iff: "vsub a b = vzero \<longleftrightarrow> a = b"
  by (cases a; cases b) (simp add: vsub_def vzero_def)

lemma norm3_vdiv_unit:
  assumes "a \<noteq> vzero"
  shows "norm3 (vdiv a (norm3 a)) = 1"
proof -
  let ?d = "norm3 a"
  have d: "?d \<noteq> 0" using assms by (simp add: norm3_eq_0_iff)
  have dd: "?d * ?d = squaredNorm a"
    by (simp add: norm3_def squaredNorm_nonneg)
  have "squaredNorm (vdiv a ?d) = squaredNorm a / (?d * ?d)"
    by (simp add: squaredNorm_def dot_def vdiv_def add_divide_distrib)
  also have "\<dots> = 1" using d by (simp add: dd [symmetric])
  finally show ?thesis by (simp add: norm3_def)
qed

lemma norm3_x_axis: "norm3 (Vector3d a 0 0) = \<bar>a\<bar>"
  by (simp add: norm3_def squaredNorm_def dot_def)

lemma coeff_nonneg:
  "0 \<le> hx \<Longrightarrow> 0 \<le> hy \<Longrightarrow> 0 \<le> hz \<Longrightarrow> 0 \<le> coeff (Vector3d hx hy hz) i"
  by (simp add: coeff_def)

section \<open>Sphere against sphere\<close>

text \<open>
  When the two centres differ, the routine adds a contact exactly when the distance of the
  centres is below the sum of the radii: its depth is the sum of the radii minus the
  distance, its normal is the difference of the centres (first minus second) divided by
  its length, a unit vector, and the penetration points lie one radius from each centre
  along that normal. Otherwise the pair is returned as it is.
\<close>

lemma sphereSphere_distinct_centers:
  assumes "getShape (getFirst pair) = SphereShape firstRadius"
    and "getShape (getSecond pair) = SphereShape secondRadius"
    and "translation (getPose (getFirst pair)) \<noteq> translation (getPose (getSecond pair))"
  shows "sphereSphere_doCalculateContact pair =
     (let firstCenter = translation (getPose (getFirst pair));
          secondCenter = translation (getPose (getSecond pair));
          dist = norm3 (vsub firstCenter secondCenter);
          n = vdiv (vsub firstCenter secondCenter) dist
      in if dist < firstRadius + secondRadius
         then Inr (addContact pair (firstRadius + secondRadius - dist) n
                (Some (vsub firstCenter (vscale n firstRadius)),
                 Some (vadd secondCenter (vscale n secondRadius))))
         else Inr pair)"
proof -
  have "norm3 (vsub (translation (getPose (getFirst pair)))
                    (translation (getPose (getSecond pair)))) \<noteq> 0"
    using assms(3) by (simp add: norm3_eq_0_iff vsub_eq_vzero_iff)
  then show ?thesis
    unfolding sphereSphere_doCalculateContact_def Let_def assms(1,2)
    by (simp add: normalize_def)
qed

lemma sphereSphere_normal_unit:
  "a \<noteq> b \<Longrightarrow> norm3 (vdiv (vsub a b) (norm3 (vsub a b))) = 1"
  by (rule norm3_vdiv_unit) (simp add: vsub_eq_vzero_iff)

text \<open>The scenario of the spec: two unit spheres at (0,0,0) and (1.5,0,0), in both orders.\<close>

lemma unit_spheres_example:
  "sphereSphere_doCalculateContact
     (makePair (makeRepresentation 1 (SphereShape 1) (Vector3d 0 0 0))
               (makeRepresentation 1 (SphereShape 1) (Vector3d (3 / 2) 0 0)))
   = Inr (addContact (makePair (makeRepresentation 1 (SphereShape 1) (Vector3d 0 0 0))
                               (makeRepresentation 1 (SphereShape 1) (Vector3d (3 / 2) 0 0)))
            (1 / 2) (Vector3d (- 1) 0 0) (Some (Vector3d 1 0 0), Some (Vector3d (1 / 2) 0 0)))"
  by (simp add: sphereSphere_doCalculateContact_def makePair_def makeRepresentation_def makePose_def
      vsub_def vadd_def vscale_def vdiv_def norm3_x_axis normalize_def)

lemma unit_spheres_example_swapped:
  "sphereSphere_doCalculateContact
     (makePair (makeRepresentation 1 (SphereShape 1) (Vector3d (3 / 2) 0 0))
               (makeRepresentation 1 (SphereShape 1) (Vector3d 0 0 0)))
   = Inr (addContact (makePair (makeRepresentation 1 (SphereShape 1) (Vector3d (3 / 2) 0 0))
                               (makeRepresentation 1 (SphereShape 1) (Vector3d 0 0 0)))
            (1 / 2) (Vector3d 1 0 0) (Some (Vector3d (1 / 2) 0 0), Some (Vector3d 1 0 0)))"
  by (simp add: sphereSphere_doCalculateContact_def makePair_def makeRepresentation_def makePose_def
      vsub_def vadd_def vscale_def vdiv_def norm3_x_axis normalize_def)

text \<open>
  When the two centres coincide and the radii have a positive sum, the distance 0 is below
  the sum of the radii and the routine normalises the zero vector.
\<close>

lemma sphereSphere_coincident_centers:
  assumes "getShape (getFirst pair) = SphereShape firstRadius"
    and "getShape (getSecond pair) = SphereShape secondRadius"
    and "translation (getPose (getFirst pair)) = translation (getPose (getSecond pair))"
    and "0 < firstRadius + secondRadius"
  shows "sphereSphere_doCalculateContact pair = Inl DivisionByZeroNorm"
proof -
  have "norm3 (vsub (translation (getPose (getFirst pair)))
                    (translation (getPose (getSecond pair)))) = 0"
    using assms(3) by (simp add: norm3_eq_0_iff vsub_eq_vzero_iff)
  then show ?thesis
    unfolding sphereSphere_doCalculateContact_def Let_def assms(1,2)
    using assms(4) by (simp add: normalize_def)
qed

text \<open>
  C1 at its failing input: for two unit spheres with the same centre (0,0,0) the distance
  0 is below the sum 2 of the radii, so the routine goes on to add a contact, and the
  normal it computes for it is the zero vector divided by its norm 0. There is no unit
  vector from the second centre to the first for the contact to carry.
\<close>

theorem sphereSphere_same_center_unit_spheres:
  "sphereSphere_doCalculateContact
     (makePair (makeRepresentation 1 (SphereShape 1) (Vector3d 0 0 0))
               (makeRepresentation 1 (SphereShape 1) (Vector3d 0 0 0)))
   = Inl DivisionByZeroNorm"
  by (simp add: sphereSphere_doCalculateContact_def makePair_def makeRepresentation_def makePose_def
      vsub_def norm3_x_axis normalize_def)

section \<open>Box against sphere\<close>

lemma boxLocal_center:
  "transformPoint (inverseTransform pose) (translation pose) = vzero"
  by (simp add: transformPoint_def inverseTransform_def vadd_def vscale_def vzero_def)

lemma closestPointInBox_center:
  "0 \<le> hx \<Longrightarrow> 0 \<le> hy \<Longrightarrow> 0 \<le> hz \<Longrightarrow>
   closestPointInBox (Vector3d hx hy hz) vzero = vzero"
  by (simp add: closestPointInBox_def vzero_def)

lemma indexOfMinimum_first_least:
  "indexOfMinimum a b c < 3 \<and>
   coeff (Vector3d a b c) (indexOfMinimum a b c) = min a (min b c) \<and>
   (\<forall>j < indexOfMinimum a b c.
      coeff (Vector3d a b c) (indexOfMinimum a b c) < coeff (Vector3d a b c) j)"
  by (auto simp add: indexOfMinimum_def coeff_def less_Suc_eq numeral_2_eq_2)

lemma centerInsideBox_center:
  assumes "0 \<le> hx" "0 \<le> hy" "0 \<le> hz" "0 < DistanceEpsilon"
  shows "centerInsideBox DistanceEpsilon (Vector3d hx hy hz) vzero =
     (setCoeff vzero (indexOfMinimum hx hy hz) 1,
      setCoeff vzero (indexOfMinimum hx hy hz) (coeff (Vector3d hx hy hz) (indexOfMinimum hx hy hz)),
      - coeff (Vector3d hx hy hz) (indexOfMinimum hx hy hz))"
proof -
  have z: "coeff vzero i = 0" for i by (simp add: coeff_def vzero_def)
  have zc: "vx vzero = 0" "vy vzero = 0" "vz vzero = 0" by (simp_all add: vzero_def)
  have a: "\<bar>coeff (Vector3d hx hy hz) i\<bar> = coeff (Vector3d hx hy hz) i" for i
    using coeff_nonneg [OF assms(1-3)] by simp
  show ?thesis
    using assms(4) by (simp add: centerInsideBox_def Let_def z a zc)
qed

text \<open>
  C2: a sphere whose centre is the centre of the box. With box sizes and radius not
  negative, \<^verbatim>\<open>DistanceEpsilon\<close> positive and \<^verbatim>\<open>SquaredDistanceEpsilon\<close> not negative, the
  routine adds one contact. Its normal is the box axis \<open>axis\<close> (the unit vector of that
  axis, turned by the rotation of the box), where \<open>axis\<close> is the first of the axes x, y, z
  whose half-extent is the least; its depth is that half-extent plus the radius.
\<close>

theorem boxSphere_sphere_center_at_box_center:
  assumes box: "getShape (getFirst pair) = BoxShape sizeX sizeY sizeZ"
    and sphere: "getShape (getSecond pair) = SphereShape radius"
    and center: "translation (getPose (getSecond pair)) = translation (getPose (getFirst pair))"
    and sizes: "0 \<le> sizeX" "0 \<le> sizeY" "0 \<le> sizeZ"
    and radius: "0 \<le> radius"
    and eps: "0 < DistanceEpsilon" "0 \<le> SquaredDistanceEpsilon"
    and halfExtent: "halfExtent = Vector3d (sizeX / 2) (sizeY / 2) (sizeZ / 2)"
    and axis: "axis = indexOfMinimum (sizeX / 2) (sizeY / 2) (sizeZ / 2)"
  shows "boxSphere_doCalculateContact DistanceEpsilon SquaredDistanceEpsilon pair =
      Inr (addContact pair
        (coeff halfExtent axis + radius)
        (mulMV (linearPart (getPose (getFirst pair))) (setCoeff vzero axis 1))
        (Some (transformPoint (getPose (getFirst pair))
                 (setCoeff vzero axis (coeff halfExtent axis))),
         Some (vadd (translation (getPose (getSecond pair)))
                 (vscale (mulMV (linearPart (getPose (getFirst pair))) (setCoeff vzero axis 1))
                    radius)))) \<and>
     axis < 3 \<and>
     coeff halfExtent axis = min (sizeX / 2) (min (sizeY / 2) (sizeZ / 2)) \<and>
     (\<forall>j < axis. coeff halfExtent axis < coeff halfExtent j)"
proof -
  let ?h = "Vector3d (sizeX / 2) (sizeY / 2) (sizeZ / 2)"
  let ?i = "indexOfMinimum (sizeX / 2) (sizeY / 2) (sizeZ / 2)"
  have h: "0 \<le> sizeX / 2" "0 \<le> sizeY / 2" "0 \<le> sizeZ / 2" using sizes by simp_all
  have local: "transformPoint (inverseTransform (getPose (getFirst pair)))
      (translation (getPose (getSecond pair))) = vzero"
    using boxLocal_center [of "getPose (getFirst pair)"] center by simp
  have closest: "closestPointInBox ?h vzero = vzero"
    by (rule closestPointInBox_center [OF h])
  have n0: "vsub vzero vzero = vzero" by (simp add: vsub_def vzero_def)
  have sq: "squaredNorm vzero = 0" by (simp add: squaredNorm_def dot_def vzero_def)
  have inside: "centerInsideBox DistanceEpsilon ?h vzero =
     (setCoeff vzero ?i 1, setCoeff vzero ?i (coeff ?h ?i), - coeff ?h ?i)"
    by (rule centerInsideBox_center [OF h eps(1)])
  have nogap: "\<not> (0 - radius * radius > SquaredDistanceEpsilon)"
  proof -
    have "0 \<le> radius * radius" by simp
    with eps(2) show ?thesis by linarith
  qed
  have dep: "\<bar>- coeff ?h ?i - radius\<bar> = coeff ?h ?i + radius"
    using coeff_nonneg [OF h, of ?i] radius by simp
  have result: "boxSphere_doCalculateContact DistanceEpsilon SquaredDistanceEpsilon pair =
      Inr (addContact pair (coeff ?h ?i + radius)
        (mulMV (linearPart (getPose (getFirst pair))) (setCoeff vzero ?i 1))
        (Some (transformPoint (getPose (getFirst pair)) (setCoeff vzero ?i (coeff ?h ?i))),
         Some (vadd (translation (getPose (getSecond pair)))
                 (vscale (mulMV (linearPart (getPose (getFirst pair))) (setCoeff vzero ?i 1))
                    radius))))"
    unfolding boxSphere_doCalculateContact_def Let_def box sphere
    using nogap eps(2)
    by (simp add: local closest n0 sq inside dep)
  show ?thesis
    unfolding halfExtent axis
    using result indexOfMinimum_first_least [of "sizeX / 2" "sizeY / 2" "sizeZ / 2"]
    by blast
qed

text \<open>
  The theorem at a box of sizes 2, 2, 4 centred at (1,2,3) and a unit sphere with the same
  centre: the faces across x and across y are equally near, the axis is x, the depth is
  1 + 1.
\<close>

theorem boxSphere_sphere_center_at_box_center_witness:
  "boxSphere_doCalculateContact (1 / 10 ^ 10) (1 / 10 ^ 10)
     (makePair (makeRepresentation 4 (BoxShape 2 2 4) (Vector3d 1 2 3))
               (makeRepresentation 1 (SphereShape 1) (Vector3d 1 2 3)))
   = Inr (addContact
       (makePair (makeRepresentation 4 (BoxShape 2 2 4) (Vector3d 1 2 3))
                 (makeRepresentation 1 (SphereShape 1) (Vector3d 1 2 3)))
       2 (Vector3d 1 0 0) (Some (Vector3d 2 2 3), Some (Vector3d 2 2 3)))"
proof -
  let ?pair = "makePair (makeRepresentation 4 (BoxShape 2 2 4) (Vector3d 1 2 3))
                        (makeRepresentation 1 (SphereShape 1) (Vector3d 1 2 3))"
  have ax: "indexOfMinimum 1 1 2 = 0"
    by (simp add: indexOfMinimum_def)
  have "boxSphere_doCalculateContact (1 / 10 ^ 10) (1 / 10 ^ 10) ?pair =
      Inr (addContact ?pair
        (coeff (Vector3d (2 / 2) (2 / 2) (4 / 2)) 0 + 1)
        (mulMV (linearPart (getPose (getFirst ?pair))) (setCoeff vzero 0 1))
        (Some (transformPoint (getPose (getFirst ?pair))
                 (setCoeff vzero 0 (coeff (Vector3d (2 / 2) (2 / 2) (4 / 2)) 0))),
         Some (vadd (translation (getPose (getSecond ?pair)))
                 (vscale (mulMV (linearPart (getPose (getFirst ?pair))) (setCoeff vzero 0 1))
                    1))))"
    using boxSphere_sphere_center_at_box_center [of ?pair 2 2 4 1 "1 / 10 ^ 10" "1 / 10 ^ 10"
        "Vector3d (2 / 2) (2 / 2) (4 / 2)" 0]
    by (simp add: ax makePair_def makeRepresentation_def makePose_def)
  then show ?thesis
    by (simp add: makePair_def makeRepresentation_def makePose_def coeff_def setCoeff_def vzero_def
        mulMV_def identity33_def dot_def transformPoint_def vadd_def vscale_def)
qed

section \<open>The normal of a contact and division by a zero norm\<close>

lemma centerOutsideBox_defined:
  "0 < squaredNorm normal0 \<Longrightarrow>
   centerOutsideBox normal0 closestPoint =
     Inr (vdiv normal0 (norm3 normal0), closestPoint, norm3 normal0)"
  by (simp add: centerOutsideBox_def norm3_def Let_def)

text \<open>
  The box-sphere routine never divides by a zero norm: the centre-inside-box case is taken
  whenever the squared distance is at most \<^verbatim>\<open>SquaredDistanceEpsilon\<close>, so the division is
  reached only with a positive squared distance.
\<close>

lemma boxSphere_never_divides_by_zero:
  assumes "getShape (getFirst pair) = BoxShape sizeX sizeY sizeZ"
    and "getShape (getSecond pair) = SphereShape radius"
    and "0 \<le> SquaredDistanceEpsilon"
  shows "\<exists>pair'. boxSphere_doCalculateContact DistanceEpsilon SquaredDistanceEpsilon pair = Inr pair'"
  unfolding boxSphere_doCalculateContact_def Let_def assms(1,2)
  using assms(3)
  by (auto simp add: centerOutsideBox_defined split: prod.splits)

text \<open>
  C3 at its failing input: the sphere-sphere routine has no epsilon test and no special
  case. For spheres of radius 1 and 2 that are both centred at (1,2,3) it normalises the
  zero vector, a division of 0 by 0 in each component of the normal.
\<close>

theorem sphereSphere_normalizes_zero_vector:
  "sphereSphere_doCalculateContact
     (makePair (makeRepresentation 1 (SphereShape 1) (Vector3d 1 2 3))
               (makeRepresentation 1 (SphereShape 2) (Vector3d 1 2 3)))
   = Inl DivisionByZeroNorm \<and>
   normalize (vsub (Vector3d 1 2 3) (Vector3d 1 2 3)) = Inl DivisionByZeroNorm"
  by (simp add: sphereSphere_doCalculateContact_def makePair_def makeRepresentation_def makePose_def
      vsub_def norm3_x_axis normalize_def)

section \<open>Vectors of dynamic size\<close>

lemma length_vecAdd: "length a = length b \<Longrightarrow> length (vecAdd a b) = length a"
  by (simp add: vecAdd_def)

lemma length_vecScale: "length (vecScale k a) = length a"
  by (simp add: vecScale_def)

lemma vecScale_vecDiv: "dt \<noteq> 0 \<Longrightarrow> vecScale dt (vecDiv a dt) = a"
  by (simp add: vecScale_def vecDiv_def map_idI)

lemma vecAdd_zeros: "length a = n \<Longrightarrow> vecAdd a (replicate n 0) = a"
  by (induction a arbitrary: n) (auto simp add: vecAdd_def)

lemma vecScale_zeros: "vecScale k (replicate n 0) = replicate n 0"
  by (simp add: vecScale_def)

lemma vecAdd_vecScale_accumulate:
  "length a = length w \<Longrightarrow>
   vecAdd (vecAdd a (vecScale k w)) (vecScale l w) = vecAdd a (vecScale (k + l) w)"
  by (induction a w rule: list_induct2) (simp_all add: vecAdd_def vecScale_def algebra_simps)

lemma vecScale_0: "vecAdd a (vecScale 0 w) = a" if "length a = length w"
  using that by (induction a w rule: list_induct2) (simp_all add: vecAdd_def vecScale_def)

lemma nth_vecAdd: "i < length a \<Longrightarrow> i < length b \<Longrightarrow> vecAdd a b ! i = a ! i + b ! i"
  by (simp add: vecAdd_def)

lemma nth_vecScale: "i < length a \<Longrightarrow> vecScale k a ! i = k * a ! i"
  by (simp add: vecScale_def)


section \<open>ModifiedExplicitEuler: one call and consecutive calls\<close>

lemma ModifiedExplicitEuler_solve_state:
  "fst (ModifiedExplicitEuler_solve sai eq solver dt cur new) =
     (let deltaV = fst (sai (matScale (computeM eq cur) (1 / dt)) (computeF eq cur));
          v = vecAdd (getVelocities cur) deltaV
      in new\<lparr> getPositions := vecAdd (getPositions cur) (vecScale dt v),
               getVelocities := v,
               getAccelerations := vecDiv deltaV dt \<rparr>)"
  by (simp add: ModifiedExplicitEuler_solve_def Let_def split: prod.splits)

lemma ModifiedExplicitEuler_step_order:
  assumes "dt \<noteq> 0"
  shows "getVelocities (fst (ModifiedExplicitEuler_solve sai eq solver dt cur new)) =
       vecAdd (getVelocities cur)
         (vecScale dt (getAccelerations (fst (ModifiedExplicitEuler_solve sai eq solver dt cur new)))) \<and>
     getPositions (fst (ModifiedExplicitEuler_solve sai eq solver dt cur new)) =
       vecAdd (getPositions cur)
         (vecScale dt (getVelocities (fst (ModifiedExplicitEuler_solve sai eq solver dt cur new))))"
  using assms by (simp add: ModifiedExplicitEuler_solve_state Let_def vecScale_vecDiv)

lemma ModifiedExplicitEuler_zero_force_step:
  assumes "computeF eq cur = replicate n 0"
    and "fst (sai (matScale (computeM eq cur) (1 / dt)) (replicate n 0)) = replicate n 0"
    and "length (getVelocities cur) = n"
  shows "getVelocities (fst (ModifiedExplicitEuler_solve sai eq solver dt cur new)) = getVelocities cur"
    and "getPositions (fst (ModifiedExplicitEuler_solve sai eq solver dt cur new)) =
       vecAdd (getPositions cur) (vecScale dt (getVelocities cur))"
  using assms by (simp_all add: ModifiedExplicitEuler_solve_state Let_def vecAdd_zeros)

lemma ModifiedExplicitEuler_zero_force_run:
  assumes "\<forall>s. computeF eq s = replicate n 0"
    and "\<forall>A. fst (sai A (replicate n 0)) = replicate n 0"
    and "length (getVelocities cur) = n" and "length (getPositions cur) = n"
  shows "getVelocities (ModifiedExplicitEuler_run sai eq dt solver cur buffers) = getVelocities cur \<and>
     getPositions (ModifiedExplicitEuler_run sai eq dt solver cur buffers) =
       vecAdd (getPositions cur) (vecScale (real (length buffers) * dt) (getVelocities cur))"
  using assms(3,4)
proof (induction buffers arbitrary: cur solver)
  case Nil
  then show ?case by (simp add: vecScale_0)
next
  case (Cons new buffers)
  obtain new' solver' where step: "ModifiedExplicitEuler_solve sai eq solver dt cur new = (new', solver')"
    by (cases "ModifiedExplicitEuler_solve sai eq solver dt cur new")
  have f: "computeF eq cur = replicate n 0" using assms(1) by simp
  have z: "fst (sai (matScale (computeM eq cur) (1 / dt)) (replicate n 0)) = replicate n 0"
    using assms(2) by simp
  have v': "getVelocities new' = getVelocities cur"
    using ModifiedExplicitEuler_zero_force_step(1) [where sai = sai and solver = solver and new = new,
        OF f z Cons.prems(1)] step by simp
  have x': "getPositions new' = vecAdd (getPositions cur) (vecScale dt (getVelocities cur))"
    using ModifiedExplicitEuler_zero_force_step(2) [where sai = sai and solver = solver and new = new,
        OF f z Cons.prems(1)] step by simp
  have lv: "length (getVelocities new') = n" using v' Cons.prems by simp
  have lx: "length (getPositions new') = n"
    using x' Cons.prems by (simp add: length_vecAdd length_vecScale)
  have len: "length (getPositions cur) = length (getVelocities cur)" using Cons.prems by simp
  show ?case
    using Cons.IH [OF lv lx, of solver'] step v' x'
    by (simp add: vecAdd_vecScale_accumulate [OF len] algebra_simps)
qed

section \<open>MassSpringRepresentation: boundary conditions and integration\<close>

lemma length_zeroNode: "length (zeroNode v bc) = length v"
  by (simp add: zeroNode_def)

lemma nth_zeroNode:
  "i < length v \<Longrightarrow> zeroNode v bc ! i = (if i div 3 = bc then 0 else v ! i)"
proof -
  assume i: "i < length v"
  have "i div 3 = bc \<longleftrightarrow> i = 3 * bc \<or> i = 3 * bc + 1 \<or> i = 3 * bc + 2" by presburger
  then show ?thesis using i by (auto simp add: zeroNode_def nth_list_update)
qed

lemma length_zeroBoundaryVelocities: "length (zeroBoundaryVelocities bcs v) = length v"
  unfolding zeroBoundaryVelocities_def
  by (induction bcs arbitrary: v) (simp_all add: length_zeroNode)

lemma nth_zeroBoundaryVelocities:
  "i < length v \<Longrightarrow>
   zeroBoundaryVelocities bcs v ! i = (if i div 3 \<in> set bcs then 0 else v ! i)"
  unfolding zeroBoundaryVelocities_def
proof (induction bcs arbitrary: v)
  case Nil
  then show ?case by simp
next
  case (Cons bc bcs)
  have "i < length (zeroNode v bc)" using Cons.prems by (simp add: length_zeroNode)
  from Cons.IH [OF this] show ?case
    using Cons.prems by (simp add: nth_zeroNode)
qed

lemma zeroBoundaryVelocities_idem:
  "zeroBoundaryVelocities bcs (zeroBoundaryVelocities bcs v) = zeroBoundaryVelocities bcs v"
  by (rule nth_equalityI)
    (simp_all add: length_zeroBoundaryVelocities nth_zeroBoundaryVelocities)

lemma zeroBoundaryForcesAndVelocities_eq:
  "zeroBoundaryForcesAndVelocities bcs (f, v) =
     (zeroBoundaryVelocities bcs f, zeroBoundaryVelocities bcs v)"
  unfolding zeroBoundaryForcesAndVelocities_def zeroBoundaryVelocities_def
  by (induction bcs arbitrary: f v) simp_all

lemma length_fold_same:
  "(\<And>a f. length (g a f) = length f) \<Longrightarrow> length (fold g xs f) = length f"
  by (induction xs arbitrary: f) simp_all

lemma length_setSegment3: "length (setSegment3 v nodeId a) = length v"
  by (simp add: setSegment3_def)

lemma length_computeAccelerations: "length (computeAccelerations getF s) = length (m_f s)"
proof -
  have g: "length (addGravity s f) = length f" for f
    unfolding addGravity_def by (rule length_fold_same) (simp add: length_setSegment3)
  have r: "length (addRayleighDampingForce s f v k) = length f" for f v k
    unfolding addRayleighDampingForce_def Let_def
    by (simp add: length_fold_same)
  have sp: "length (addSpringForces getF s f) = length f" for f
    unfolding addSpringForces_def by (rule length_fold_same) (simp add: length_setSegment3 Let_def)
  have d: "length (divideByMass s f) = length f" for f
    unfolding divideByMass_def by (rule length_fold_same) (simp add: length_setSegment3)
  show ?thesis
    by (simp add: computeAccelerations_def Let_def g r sp d setZero_def)
qed

lemma computeAccelerations_xPrevious [simp]:
  "computeAccelerations getF (s\<lparr> m_xPrevious := p \<rparr>) = computeAccelerations getF s"
  by (simp add: computeAccelerations_def addGravity_def addRayleighDampingForce_def
      addSpringForces_def divideByMass_def getNumMasses_def getMassParameter_def Let_def)

lemma update_active:
  assumes "isActive s"
  shows "update getF s dt =
     (if m_integrationScheme s = INTEGRATIONSCHEME_MODIFIED_EXPLICIT_EULER
      then s\<lparr> m_f := computeAccelerations getF s,
              m_v := zeroBoundaryVelocities (m_boundaryConditions s)
                       (vecAdd (m_v s) (vecScale dt (computeAccelerations getF s))),
              m_x := vecAdd (m_x s) (vecScale dt
                       (zeroBoundaryVelocities (m_boundaryConditions s)
                          (vecAdd (m_v s) (vecScale dt (computeAccelerations getF s))))) \<rparr>
      else s\<lparr> m_f := zeroBoundaryVelocities (m_boundaryConditions s) (computeAccelerations getF s),
              m_v := vecAdd (zeroBoundaryVelocities (m_boundaryConditions s) (m_v s))
                       (vecScale dt (zeroBoundaryVelocities (m_boundaryConditions s)
                          (computeAccelerations getF s))),
              m_x := vecAdd (m_x s) (vecScale dt
                       (zeroBoundaryVelocities (m_boundaryConditions s) (m_v s))) \<rparr>)"
  using assms
  by (cases "m_integrationScheme s")
    (simp_all add: update_def updateEulerExplicit_def Let_def zeroBoundaryForcesAndVelocities_eq)

lemma tick_inactive: "\<not> isActive s \<Longrightarrow> tick getF s input = s"
  by (simp add: tick_def beforeUpdate_def update_def MassSpring_applyDofCorrection_def afterUpdate_def)

lemma tick_active:
  assumes "isActive s"
  shows "m_x (tick getF s input) = m_x (update getF s (fst input))"
    and "m_v (tick getF s input) = m_v (update getF s (fst input))"
    and "m_f (tick getF s input) = m_f (update getF s (fst input))"
    and "m_boundaryConditions (tick getF s input) = m_boundaryConditions s"
    and "isActive (tick getF s input)"
    and "m_integrationScheme (tick getF s input) = m_integrationScheme s"
    and "isGravityEnabled (tick getF s input) = isGravityEnabled s"
    and "m_rayleighDamping (tick getF s input) = m_rayleighDamping s"
    and "getEdges (m_finalState (tick getF s input)) = getEdges (m_finalState s)"
  using assms
  by (simp_all add: tick_def beforeUpdate_def MassSpring_applyDofCorrection_def afterUpdate_def
      update_active)

lemma div3_node: "k < 3 \<Longrightarrow> (3 * bc + k) div 3 = (bc::nat)"
  by simp

lemma update_lengths:
  assumes "length (m_x s) = L" "length (m_v s) = L" "length (m_f s) = L"
  shows "length (m_x (update getF s dt)) = L \<and> length (m_v (update getF s dt)) = L \<and>
         length (m_f (update getF s dt)) = L"
proof (cases "isActive s")
  case True
  then show ?thesis
    using assms
    by (simp add: update_active length_vecAdd length_vecScale length_zeroBoundaryVelocities
        length_computeAccelerations)
next
  case False
  then show ?thesis using assms by (simp add: update_def)
qed

lemma update_boundary_velocity:
  assumes "isActive s" "length (m_v s) = L" "length (m_f s) = L"
    and "i < L" "i div 3 \<in> set (m_boundaryConditions s)"
  shows "m_v (update getF s dt) ! i = 0"
  using assms
  by (simp add: update_active nth_vecAdd nth_vecScale length_vecAdd length_vecScale
      length_zeroBoundaryVelocities nth_zeroBoundaryVelocities length_computeAccelerations)

lemma update_boundary_force_explicit:
  assumes "isActive s" "m_integrationScheme s = INTEGRATIONSCHEME_EXPLICIT_EULER"
    and "length (m_f s) = L" "i < L" "i div 3 \<in> set (m_boundaryConditions s)"
  shows "m_f (update getF s dt) ! i = 0"
  using assms
  by (simp add: update_active nth_zeroBoundaryVelocities length_computeAccelerations)

lemma update_boundary_position:
  assumes "length (m_x s) = L" "length (m_v s) = L" "length (m_f s) = L"
    and "i < L" "i div 3 \<in> set (m_boundaryConditions s)"
  shows "m_x (update getF s dt) ! i = m_x s ! i"
proof (cases "isActive s")
  case True
  then show ?thesis
    using assms
    by (simp add: update_active nth_vecAdd nth_vecScale length_vecAdd length_vecScale
        length_zeroBoundaryVelocities nth_zeroBoundaryVelocities length_computeAccelerations)
next
  case False
  then show ?thesis by (simp add: update_def)
qed

lemma tick_fields:
  "m_x (tick getF s input) = m_x (update getF s (fst input))"
  "m_v (tick getF s input) = m_v (update getF s (fst input))"
  "m_f (tick getF s input) = m_f (update getF s (fst input))"
  "m_boundaryConditions (tick getF s input) = m_boundaryConditions s"
proof -
  show "m_x (tick getF s input) = m_x (update getF s (fst input))"
    by (cases "isActive s") (simp_all add: tick_active tick_inactive update_def)
  show "m_v (tick getF s input) = m_v (update getF s (fst input))"
    by (cases "isActive s") (simp_all add: tick_active tick_inactive update_def)
  show "m_f (tick getF s input) = m_f (update getF s (fst input))"
    by (cases "isActive s") (simp_all add: tick_active tick_inactive update_def)
  show "m_boundaryConditions (tick getF s input) = m_boundaryConditions s"
    by (cases "isActive s") (simp_all add: tick_active tick_inactive)
qed

lemma run_boundary_nodes:
  assumes "length (m_x s) = L" "length (m_v s) = L" "length (m_f s) = L"
    and "i < L" "i div 3 \<in> set (m_boundaryConditions s)"
  shows "m_x (run getF s inputs) ! i = m_x s ! i \<and>
         (m_v s ! i = 0 \<longrightarrow> m_v (run getF s inputs) ! i = 0)"
  using assms
proof (induction inputs arbitrary: s)
  case Nil
  then show ?case by (simp add: run_def)
next
  case (Cons input inputs)
  let ?s' = "tick getF s input"
  have len: "length (m_x ?s') = L" "length (m_v ?s') = L" "length (m_f ?s') = L"
    using update_lengths [OF Cons.prems(1-3), of getF "fst input"] by (simp_all add: tick_fields)
  have bc: "i div 3 \<in> set (m_boundaryConditions ?s')"
    using Cons.prems(5) by (simp add: tick_fields)
  have x: "m_x ?s' ! i = m_x s ! i"
    using update_boundary_position [OF Cons.prems(1-5)] by (simp add: tick_fields)
  have v: "m_v s ! i = 0 \<longrightarrow> m_v ?s' ! i = 0"
  proof (cases "isActive s")
    case True
    then show ?thesis
      using update_boundary_velocity [OF True Cons.prems(2-5)] by (simp add: tick_fields)
  next
    case False
    then show ?thesis by (simp add: tick_inactive)
  qed
  have "run getF s (input # inputs) = run getF ?s' inputs" by (simp add: run_def)
  then show ?case
    using Cons.IH [OF len Cons.prems(4) bc] x v by simp
qed

lemma fold_invariant:
  "P f \<Longrightarrow> (\<And>a f. P f \<Longrightarrow> P (g a f)) \<Longrightarrow> P (fold g xs f)"
  by (induction xs arbitrary: f) simp_all

lemma zeros_list_update:
  assumes "\<forall>i < length f. f ! i = 0" and "j < length f \<Longrightarrow> c = 0"
  shows "\<forall>i < length (f[j := c]). f[j := c] ! i = (0::real)"
proof (intro allI impI)
  fix i assume "i < length (f[j := c])"
  then have i: "i < length f" by simp
  show "f[j := c] ! i = 0"
  proof (cases "i = j")
    case True
    then show ?thesis using i assms(2) by simp
  next
    case False
    then show ?thesis using i assms(1) by simp
  qed
qed

lemma zeros_setSegment3_vdiv:
  assumes "\<forall>i < length f. f ! i = 0"
  shows "\<forall>i < length (setSegment3 f n (vdiv (segment3 f n) m)).
           setSegment3 f n (vdiv (segment3 f n) m) ! i = 0"
  unfolding setSegment3_def segment3_def vdiv_def Vector3d.sel
  by (intro zeros_list_update assms) (simp_all add: assms)

lemma zeros_divideByMass:
  "\<forall>i < length f. f ! i = 0 \<Longrightarrow> \<forall>i < length (divideByMass s f). divideByMass s f ! i = 0"
  unfolding divideByMass_def
  by (rule fold_invariant [where P = "\<lambda>f. \<forall>i < length f. f ! i = 0"])
    (simp_all add: zeros_setSegment3_vdiv)

lemma zeros_replicate: "\<forall>i < length f. f ! i = 0 \<Longrightarrow> f = replicate (length f) (0::real)"
  by (rule nth_equalityI) simp_all

lemma computeAccelerations_no_force:
  assumes "\<not> isGravityEnabled s" "massCoefficient (m_rayleighDamping s) = 0"
    and "getEdges (m_finalState s) = []"
  shows "computeAccelerations getF s = replicate (length (m_f s)) 0"
proof -
  have z: "\<forall>i < length (setZero (m_f s)). setZero (m_f s) ! i = 0"
    by (simp add: setZero_def)
  have eq: "computeAccelerations getF s = divideByMass s (setZero (m_f s))"
    using assms
    by (simp add: computeAccelerations_def Let_def addRayleighDampingForce_def addSpringForces_def)
  have "computeAccelerations getF s = replicate (length (computeAccelerations getF s)) 0"
    unfolding eq by (rule zeros_replicate [OF zeros_divideByMass [OF z]])
  then show ?thesis by (simp add: length_computeAccelerations)
qed

lemma update_no_force:
  assumes "isActive s" "m_integrationScheme s = INTEGRATIONSCHEME_MODIFIED_EXPLICIT_EULER"
    and "\<not> isGravityEnabled s" "massCoefficient (m_rayleighDamping s) = 0"
    and "getEdges (m_finalState s) = []"
    and "length (m_v s) = length (m_f s)"
  shows "m_v (update getF s dt) = zeroBoundaryVelocities (m_boundaryConditions s) (m_v s)"
    and "m_x (update getF s dt) = vecAdd (m_x s) (vecScale dt (m_v (update getF s dt)))"
    and "m_f (update getF s dt) = replicate (length (m_f s)) 0"
  using assms
  by (simp_all add: update_active computeAccelerations_no_force vecScale_zeros vecAdd_zeros)

lemma run_no_force_zeroed:
  assumes "isActive s" "m_integrationScheme s = INTEGRATIONSCHEME_MODIFIED_EXPLICIT_EULER"
    and "\<not> isGravityEnabled s" "massCoefficient (m_rayleighDamping s) = 0"
    and "getEdges (m_finalState s) = []"
    and "length (m_v s) = length (m_f s)" "length (m_x s) = length (m_v s)"
    and "zeroBoundaryVelocities (m_boundaryConditions s) (m_v s) = m_v s"
  shows "m_v (run getF s inputs) = m_v s \<and>
         m_x (run getF s inputs) = vecAdd (m_x s) (vecScale (sum_list (map fst inputs)) (m_v s))"
  using assms
proof (induction inputs arbitrary: s)
  case Nil
  then show ?case by (simp add: run_def vecScale_0)
next
  case (Cons input inputs)
  let ?s' = "tick getF s input"
  note u = update_no_force [OF Cons.prems(1-6), of getF "fst input"]
  have v': "m_v ?s' = m_v s" using u(1) Cons.prems(8) by (simp add: tick_fields)
  have x': "m_x ?s' = vecAdd (m_x s) (vecScale (fst input) (m_v s))"
    using u(2) u(1) Cons.prems(8) by (simp add: tick_fields)
  have f': "length (m_f ?s') = length (m_f s)" using u(3) by (simp add: tick_fields)
  have p: "isActive ?s'" "m_integrationScheme ?s' = INTEGRATIONSCHEME_MODIFIED_EXPLICIT_EULER"
    "\<not> isGravityEnabled ?s'" "massCoefficient (m_rayleighDamping ?s') = 0"
    "getEdges (m_finalState ?s') = []"
    using Cons.prems(1-5) by (simp_all add: tick_active)
  have l: "length (m_v ?s') = length (m_f ?s')" "length (m_x ?s') = length (m_v ?s')"
    using Cons.prems(6,7) v' x' f' by (simp_all add: length_vecAdd length_vecScale)
  have z: "zeroBoundaryVelocities (m_boundaryConditions ?s') (m_v ?s') = m_v ?s'"
    using Cons.prems(8) v' by (simp add: tick_fields)
  have "run getF s (input # inputs) = run getF ?s' inputs" by (simp add: run_def)
  then show ?case
    using Cons.IH [OF p l z] v' x'
    by (simp add: vecAdd_vecScale_accumulate [OF Cons.prems(7)])
qed

lemma run_no_force:
  assumes "isActive s" "m_integrationScheme s = INTEGRATIONSCHEME_MODIFIED_EXPLICIT_EULER"
    and "\<not> isGravityEnabled s" "massCoefficient (m_rayleighDamping s) = 0"
    and "getEdges (m_finalState s) = []"
    and "length (m_v s) = length (m_f s)" "length (m_x s) = length (m_v s)"
    and "inputs \<noteq> []"
  shows "m_v (run getF s inputs) = zeroBoundaryVelocities (m_boundaryConditions s) (m_v s) \<and>
         m_x (run getF s inputs) =
           vecAdd (m_x s) (vecScale (sum_list (map fst inputs))
             (zeroBoundaryVelocities (m_boundaryConditions s) (m_v s)))"
proof -
  obtain input rest where inputs: "inputs = input # rest" using assms(8) by (cases inputs) auto
  let ?s' = "tick getF s input"
  let ?w = "zeroBoundaryVelocities (m_boundaryConditions s) (m_v s)"
  note u = update_no_force [OF assms(1-6), of getF "fst input"]
  have v': "m_v ?s' = ?w" using u(1) by (simp add: tick_fields)
  have x': "m_x ?s' = vecAdd (m_x s) (vecScale (fst input) ?w)"
    using u(2) u(1) by (simp add: tick_fields)
  have f': "length (m_f ?s') = length (m_f s)" using u(3) by (simp add: tick_fields)
  have p: "isActive ?s'" "m_integrationScheme ?s' = INTEGRATIONSCHEME_MODIFIED_EXPLICIT_EULER"
    "\<not> isGravityEnabled ?s'" "massCoefficient (m_rayleighDamping ?s') = 0"
    "getEdges (m_finalState ?s') = []"
    using assms(1-5) by (simp_all add: tick_active)
  have l: "length (m_v ?s') = length (m_f ?s')" "length (m_x ?s') = length (m_v ?s')"
    using assms(6,7) v' x' f'
    by (simp_all add: length_vecAdd length_vecScale length_zeroBoundaryVelocities)
  have z: "zeroBoundaryVelocities (m_boundaryConditions ?s') (m_v ?s') = m_v ?s'"
    using v' by (simp add: tick_fields zeroBoundaryVelocities_idem)
  have lw: "length (m_x s) = length ?w"
    using assms(7) by (simp add: length_zeroBoundaryVelocities)
  have "run getF s inputs = run getF ?s' rest" by (simp add: run_def inputs)
  then show ?thesis
    using run_no_force_zeroed [OF p l z, of getF rest] v' x'
    by (simp add: inputs vecAdd_vecScale_accumulate [OF lw])
qed

section \<open>Linear systems and the total force\<close>

lemma dotList_scale_left:
  "sum_list (map2 (*) (map (\<lambda>c. c * k) row) x) = k * sum_list (map2 (*) row (x::real list))"
proof (induction row arbitrary: x)
  case Nil
  then show ?case by simp
next
  case (Cons r row)
  then show ?case by (cases x) (simp_all add: algebra_simps)
qed

lemma dotList_div_right:
  "sum_list (map2 (*) row (map (\<lambda>c. c / k) x)) = sum_list (map2 (*) row (x::real list)) / k"
proof (induction row arbitrary: x)
  case Nil
  then show ?case by simp
next
  case (Cons r row)
  then show ?case by (cases x) (simp_all add: add_divide_distrib)
qed

lemma mulMatVec_matScale: "mulMatVec (matScale M k) x = vecScale k (mulMatVec M x)"
  by (simp add: mulMatVec_def matScale_def vecScale_def dotList_scale_left)

lemma mulMatVec_vecDiv: "mulMatVec M (vecDiv x k) = vecDiv (mulMatVec M x) k"
  by (simp add: mulMatVec_def vecDiv_def dotList_div_right)

lemma vecScale_inverse_vecDiv: "vecScale (1 / k) a = vecDiv a k"
  by (simp add: vecScale_def vecDiv_def)

lemma ModifiedExplicitEuler_acceleration_solves:
  assumes "mulMatVec (matScale (computeM eq cur) (1 / dt))
             (fst (sai (matScale (computeM eq cur) (1 / dt)) (computeF eq cur))) = computeF eq cur"
  shows "mulMatVec (computeM eq cur)
           (getAccelerations (fst (ModifiedExplicitEuler_solve sai eq solver dt cur new))) =
         computeF eq cur"
  using assms
  by (simp add: ModifiedExplicitEuler_solve_state Let_def mulMatVec_vecDiv mulMatVec_matScale
      vecScale_inverse_vecDiv)

lemma computeAccelerations_computeForces:
  "computeAccelerations getF s = divideByMass s (computeForces getF s)"
  by (simp add: computeAccelerations_def computeForces_def Let_def)

lemma computeAccelerations_zero_force:
  assumes "computeForces getF s = replicate (length (m_f s)) 0"
  shows "computeAccelerations getF s = replicate (length (m_f s)) 0"
proof -
  have z: "\<forall>i < length (computeForces getF s). computeForces getF s ! i = 0"
    using assms by simp
  have "computeAccelerations getF s = replicate (length (computeAccelerations getF s)) 0"
    unfolding computeAccelerations_computeForces
    by (rule zeros_replicate [OF zeros_divideByMass [OF z]])
  then show ?thesis by (simp add: length_computeAccelerations)
qed

lemma update_zero_force:
  assumes "isActive s" "m_integrationScheme s = INTEGRATIONSCHEME_MODIFIED_EXPLICIT_EULER"
    and "computeForces getF s = replicate (length (m_f s)) 0"
    and "length (m_v s) = length (m_f s)"
  shows "m_v (update getF s dt) = zeroBoundaryVelocities (m_boundaryConditions s) (m_v s)"
    and "m_x (update getF s dt) = vecAdd (m_x s) (vecScale dt (m_v (update getF s dt)))"
    and "m_f (update getF s dt) = replicate (length (m_f s)) 0"
  using assms
  by (simp_all add: update_active computeAccelerations_zero_force vecScale_zeros vecAdd_zeros)

lemma run_zero_force_zeroed:
  assumes "isActive s" "m_integrationScheme s = INTEGRATIONSCHEME_MODIFIED_EXPLICIT_EULER"
    and "length (m_v s) = length (m_f s)" "length (m_x s) = length (m_v s)"
    and "zeroBoundaryVelocities (m_boundaryConditions s) (m_v s) = m_v s"
    and "zeroTotalForce getF s inputs"
  shows "m_v (run getF s inputs) = m_v s \<and>
         m_x (run getF s inputs) = vecAdd (m_x s) (vecScale (sum_list (map fst inputs)) (m_v s))"
  using assms
proof (induction inputs arbitrary: s)
  case Nil
  then show ?case by (simp add: run_def vecScale_0)
next
  case (Cons input inputs)
  let ?s' = "tick getF s input"
  have force: "computeForces getF s = replicate (length (m_f s)) 0"
    and rest: "zeroTotalForce getF ?s' inputs"
    using Cons.prems(6) by simp_all
  note u = update_zero_force [OF Cons.prems(1,2) force Cons.prems(3), of "fst input"]
  have v': "m_v ?s' = m_v s" using u(1) Cons.prems(5) by (simp add: tick_fields)
  have x': "m_x ?s' = vecAdd (m_x s) (vecScale (fst input) (m_v s))"
    using u(2) u(1) Cons.prems(5) by (simp add: tick_fields)
  have f': "length (m_f ?s') = length (m_f s)" using u(3) by (simp add: tick_fields)
  have p: "isActive ?s'" "m_integrationScheme ?s' = INTEGRATIONSCHEME_MODIFIED_EXPLICIT_EULER"
    using Cons.prems(1,2) by (simp_all add: tick_active)
  have l: "length (m_v ?s') = length (m_f ?s')" "length (m_x ?s') = length (m_v ?s')"
    using Cons.prems(3,4) v' x' f' by (simp_all add: length_vecAdd length_vecScale)
  have z: "zeroBoundaryVelocities (m_boundaryConditions ?s') (m_v ?s') = m_v ?s'"
    using Cons.prems(5) v' by (simp add: tick_fields)
  have "run getF s (input # inputs) = run getF ?s' inputs" by (simp add: run_def)
  then show ?case
    using Cons.IH [OF p l z rest] v' x'
    by (simp add: vecAdd_vecScale_accumulate [OF Cons.prems(4)])
qed

lemma run_zero_force:
  assumes "isActive s" "m_integrationScheme s = INTEGRATIONSCHEME_MODIFIED_EXPLICIT_EULER"
    and "length (m_v s) = length (m_f s)" "length (m_x s) = length (m_v s)"
    and "inputs \<noteq> []" and "zeroTotalForce getF s inputs"
  shows "m_v (run getF s inputs) = zeroBoundaryVelocities (m_boundaryConditions s) (m_v s) \<and>
         m_x (run getF s inputs) =
           vecAdd (m_x s) (vecScale (sum_list (map fst inputs))
             (zeroBoundaryVelocities (m_boundaryConditions s) (m_v s)))"
proof -
  obtain input rest where inputs: "inputs = input # rest" using assms(5) by (cases inputs) auto
  let ?s' = "tick getF s input"
  let ?w = "zeroBoundaryVelocities (m_boundaryConditions s) (m_v s)"
  have force: "computeForces getF s = replicate (length (m_f s)) 0"
    and rest: "zeroTotalForce getF ?s' rest"
    using assms(6) by (simp_all add: inputs)
  note u = update_zero_force [OF assms(1,2) force assms(3), of "fst input"]
  have v': "m_v ?s' = ?w" using u(1) by (simp add: tick_fields)
  have x': "m_x ?s' = vecAdd (m_x s) (vecScale (fst input) ?w)"
    using u(2) u(1) by (simp add: tick_fields)
  have f': "length (m_f ?s') = length (m_f s)" using u(3) by (simp add: tick_fields)
  have p: "isActive ?s'" "m_integrationScheme ?s' = INTEGRATIONSCHEME_MODIFIED_EXPLICIT_EULER"
    using assms(1,2) by (simp_all add: tick_active)
  have l: "length (m_v ?s') = length (m_f ?s')" "length (m_x ?s') = length (m_v ?s')"
    using assms(3,4) v' x' f'
    by (simp_all add: length_vecAdd length_vecScale length_zeroBoundaryVelocities)
  have z: "zeroBoundaryVelocities (m_boundaryConditions ?s') (m_v ?s') = m_v ?s'"
    using v' by (simp add: tick_fields zeroBoundaryVelocities_idem)
  have lw: "length (m_x s) = length ?w"
    using assms(4) by (simp add: length_zeroBoundaryVelocities)
  have "run getF s inputs = run getF ?s' rest" by (simp add: run_def inputs)
  then show ?thesis
    using run_zero_force_zeroed [OF p l z rest] v' x'
    by (simp add: inputs vecAdd_vecScale_accumulate [OF lw])
qed

text \<open>Without gravity, mass damping and springs the total force is zero along every run.\<close>

lemma computeForces_no_force:
  assumes "\<not> isGravityEnabled s" "massCoefficient (m_rayleighDamping s) = 0"
    and "getEdges (m_finalState s) = []"
  shows "computeForces getF s = replicate (length (m_f s)) 0"
  using assms
  by (simp add: computeForces_def Let_def addRayleighDampingForce_def addSpringForces_def
      setZero_def map_replicate_const)

lemma zeroTotalForce_no_force:
  assumes "isActive s" "\<not> isGravityEnabled s" "massCoefficient (m_rayleighDamping s) = 0"
    and "getEdges (m_finalState s) = []"
  shows "zeroTotalForce getF s inputs"
  using assms
proof (induction inputs arbitrary: s)
  case Nil
  then show ?case by simp
next
  case (Cons input inputs)
  have "zeroTotalForce getF (tick getF s input) inputs"
    using Cons.prems by (intro Cons.IH) (simp_all add: tick_active)
  then show ?case using Cons.prems by (simp add: computeForces_no_force)
qed

lemma exampleChain_fields:
  "isActive (exampleChain x v)"
  "m_integrationScheme (exampleChain x v) = INTEGRATIONSCHEME_MODIFIED_EXPLICIT_EULER"
  "\<not> isGravityEnabled (exampleChain x v)"
  "massCoefficient (m_rayleighDamping (exampleChain x v)) = 0"
  "getEdges (m_finalState (exampleChain x v)) =
     [\<lparr> vertices = (1, 2),
        edgeData = \<lparr> getStiffness = 10, getDamping = 0, getInitialLength = 1 \<rparr> \<rparr>]"
  "m_boundaryConditions (exampleChain x v) = [0]"
  "m_v (exampleChain x v) = v"
  "m_x (exampleChain x v) = x"
  "m_f (exampleChain x v) = [0, 0, 0, 0, 0, 0, 0, 0, 0]"
  by (simp_all add: exampleChain_def)

text \<open>The spring of the example exerts no force while nodes 1 and 2 are 1 apart along x.\<close>

lemma exampleChain_spring_at_rest:
  assumes "\<not> isGravityEnabled s" "massCoefficient (m_rayleighDamping s) = 0"
    and "getEdges (m_finalState s) =
     [\<lparr> vertices = (1, 2),
        edgeData = \<lparr> getStiffness = 10, getDamping = 0, getInitialLength = 1 \<rparr> \<rparr>]"
    and "m_x s = [0, 0, 0, 1, y, 0, 2, y, 0]"
    and "m_f s = [0, 0, 0, 0, 0, 0, 0, 0, 0]"
  shows "computeForces exampleSpringForce s = replicate (length (m_f s)) 0"
  using assms
  by (simp add: computeForces_def Let_def addRayleighDampingForce_def addSpringForces_def
      setZero_def exampleSpringForce_def segment3_def setSegment3_def vsub_def vadd_def vscale_def
      vdiv_def norm3_x_axis numeral_eq_Suc)

lemma exampleChain_zeroBoundaryVelocities:
  "zeroBoundaryVelocities [0] [a, b, c, d, e, f, g, h, i] = [0, 0, 0, d, e, f, g, h, i]"
  by (simp add: zeroBoundaryVelocities_def zeroNode_def)

lemma exampleChain_zeroTotalForce:
  "zeroTotalForce exampleSpringForce
     (exampleChain [0, 0, 0, 1, 0, 0, 2, 0, 0] [1, 0, 0, 0, 2, 0, 0, 2, 0])
     [(1 / 2, []), (1 / 2, [])]"
proof -
  let ?s = "exampleChain [0, 0, 0, 1, 0, 0, 2, 0, 0] [1, 0, 0, 0, 2, 0, 0, 2, 0]"
  let ?s' = "tick exampleSpringForce ?s (1 / 2, [])"
  have f0: "computeForces exampleSpringForce ?s = replicate (length (m_f ?s)) 0"
    by (rule exampleChain_spring_at_rest [where y = 0]) (simp_all add: exampleChain_fields)
  note u = update_zero_force [OF exampleChain_fields(1,2) f0, of "1 / 2"]
  have v': "m_v ?s' = [0, 0, 0, 0, 2, 0, 0, 2, 0]"
    using u(1) by (simp add: tick_fields exampleChain_fields exampleChain_zeroBoundaryVelocities)
  have x': "m_x ?s' = [0, 0, 0, 1, 1, 0, 2, 1, 0]"
    using u(2) v' by (simp add: tick_fields exampleChain_fields vecAdd_def vecScale_def)
  have m': "m_f ?s' = [0, 0, 0, 0, 0, 0, 0, 0, 0]"
    using u(3) by (simp add: tick_fields exampleChain_fields numeral_eq_Suc)
  have f1: "computeForces exampleSpringForce ?s' = replicate (length (m_f ?s')) 0"
    by (rule exampleChain_spring_at_rest [where y = 1])
      (simp_all add: tick_active exampleChain_fields x' m')
  show ?thesis using f0 f1 by simp
qed

section \<open>The example representation\<close>

lemma example_accelerations_gravity:
  "computeAccelerations noSpringForce (exampleMassSpring True scheme [0, 0, 0, 0, 0, 0])
   = [0, - 981 / 100, 0, 0, - 981 / 100, 0]"
  by (simp add: computeAccelerations_def exampleMassSpring_def Let_def setZero_def addGravity_def
      addRayleighDampingForce_def addSpringForces_def divideByMass_def getNumMasses_def
      getMassParameter_def setSegment3_def segment3_def vscale_def vdiv_def upt_conv_Cons)

lemma example_fields:
  "isActive (exampleMassSpring g scheme v)"
  "m_integrationScheme (exampleMassSpring g scheme v) = scheme"
  "isGravityEnabled (exampleMassSpring g scheme v) = g"
  "massCoefficient (m_rayleighDamping (exampleMassSpring g scheme v)) = 0"
  "getEdges (m_finalState (exampleMassSpring g scheme v)) = []"
  "m_boundaryConditions (exampleMassSpring g scheme v) = [0]"
  "m_v (exampleMassSpring g scheme v) = v"
  "m_x (exampleMassSpring g scheme v) = [0, 0, 0, 1, 0, 0]"
  "m_f (exampleMassSpring g scheme v) = [0, 0, 0, 0, 0, 0]"
  by (simp_all add: exampleMassSpring_def)

lemma example_zeroBoundaryVelocities:
  "zeroBoundaryVelocities [0] [a, b, c, d, e, f] = [0, 0, 0, d, e, f]"
  by (simp add: zeroBoundaryVelocities_def zeroNode_def)

section \<open>Boundary conditions of the mass-spring representation\<close>

text \<open>
  C8, as the claim states it, fails in its first part: the modified explicit Euler scheme
  sets the velocities of a boundary node to zero and leaves its entries of \<^verbatim>\<open>m_f\<close> as
  they were computed. In the example representation, with gravity, node 0 is a boundary
  condition and after one \<^verbatim>\<open>update\<close> its entry of \<^verbatim>\<open>m_f\<close> along y is -9.81.
\<close>

theorem modified_scheme_keeps_boundary_force_counterexample:
  "0 \<in> set (m_boundaryConditions
            (exampleMassSpring True INTEGRATIONSCHEME_MODIFIED_EXPLICIT_EULER [0, 0, 0, 0, 0, 0])) \<and>
   m_f (update noSpringForce
         (exampleMassSpring True INTEGRATIONSCHEME_MODIFIED_EXPLICIT_EULER [0, 0, 0, 0, 0, 0]) (1 / 100))
     = [0, - 981 / 100, 0, 0, - 981 / 100, 0] \<and>
   m_f (update noSpringForce
         (exampleMassSpring True INTEGRATIONSCHEME_MODIFIED_EXPLICIT_EULER [0, 0, 0, 0, 0, 0]) (1 / 100))
     ! (3 * 0 + 1) \<noteq> 0"
  by (simp add: update_active example_fields example_accelerations_gravity)

text \<open>
  C8, amended. For a node \<open>bc\<close> listed as a boundary condition and each of its three
  components \<open>k\<close>: an \<^verbatim>\<open>update\<close> of an active representation sets the velocity
  component to zero, under both schemes; under the explicit scheme it sets the component
  of \<^verbatim>\<open>m_f\<close> to zero too. After any number of ticks (free motion, correction,
  \<^verbatim>\<open>afterUpdate\<close>), with any time steps and any correction blocks, the position component
  is what it was at the start, and a velocity component that was zero at the start (as
  \<^verbatim>\<open>init1D\<close> sets every velocity) is what it was at the start. This holds whatever the
  gravity, the damping and the spring forces \<open>getF\<close> are.
\<close>

theorem boundary_nodes_stay_fixed:
  assumes "length (m_x s) = length (m_v s)" and "length (m_f s) = length (m_v s)"
    and "bc \<in> set (m_boundaryConditions s)" and "k < 3" and "3 * bc + k < length (m_v s)"
  shows "(isActive s \<longrightarrow> m_v (update getF s dt) ! (3 * bc + k) = 0) \<and>
     (isActive s \<and> m_integrationScheme s = INTEGRATIONSCHEME_EXPLICIT_EULER \<longrightarrow>
        m_f (update getF s dt) ! (3 * bc + k) = 0) \<and>
     m_x (run getF s inputs) ! (3 * bc + k) = m_x s ! (3 * bc + k) \<and>
     (m_v s ! (3 * bc + k) = 0 \<longrightarrow>
        m_v (run getF s inputs) ! (3 * bc + k) = m_v s ! (3 * bc + k))"
proof -
  have node: "(3 * bc + k) div 3 \<in> set (m_boundaryConditions s)"
    using assms(3,4) by (simp add: div3_node)
  have v: "isActive s \<Longrightarrow> m_v (update getF s dt) ! (3 * bc + k) = 0"
    using update_boundary_velocity [OF _ refl assms(2) assms(5) node] by simp
  have f: "isActive s \<Longrightarrow> m_integrationScheme s = INTEGRATIONSCHEME_EXPLICIT_EULER \<Longrightarrow>
      m_f (update getF s dt) ! (3 * bc + k) = 0"
    using update_boundary_force_explicit [OF _ _ assms(2) assms(5) node] by simp
  have r: "m_x (run getF s inputs) ! (3 * bc + k) = m_x s ! (3 * bc + k) \<and>
      (m_v s ! (3 * bc + k) = 0 \<longrightarrow> m_v (run getF s inputs) ! (3 * bc + k) = 0)"
    by (rule run_boundary_nodes [OF assms(1) refl assms(2) assms(5) node])
  show ?thesis using v f r by simp
qed

theorem boundary_nodes_stay_fixed_witness:
  "0 \<in> set (m_boundaryConditions (exampleMassSpring True INTEGRATIONSCHEME_EXPLICIT_EULER [0, 0, 0, 0, 0, 0])) \<and>
   isActive (exampleMassSpring True INTEGRATIONSCHEME_EXPLICIT_EULER [0, 0, 0, 0, 0, 0]) \<and>
   m_v (update noSpringForce
          (exampleMassSpring True INTEGRATIONSCHEME_EXPLICIT_EULER [0, 0, 0, 0, 0, 0]) (1 / 100)) ! 1 = 0 \<and>
   m_f (update noSpringForce
          (exampleMassSpring True INTEGRATIONSCHEME_EXPLICIT_EULER [0, 0, 0, 0, 0, 0]) (1 / 100)) ! 1 = 0 \<and>
   m_x (run noSpringForce
          (exampleMassSpring True INTEGRATIONSCHEME_EXPLICIT_EULER [0, 0, 0, 0, 0, 0])
          [(1 / 100, []), (1 / 100, [])]) ! 1 = 0 \<and>
   m_v (run noSpringForce
          (exampleMassSpring True INTEGRATIONSCHEME_EXPLICIT_EULER [0, 0, 0, 0, 0, 0])
          [(1 / 100, []), (1 / 100, [])]) ! 1 = 0"
  using boundary_nodes_stay_fixed [where s = "exampleMassSpring True INTEGRATIONSCHEME_EXPLICIT_EULER [0, 0, 0, 0, 0, 0]"
      and bc = 0 and k = 1 and getF = noSpringForce and dt = "1 / 100"
      and inputs = "[(1 / 100, []), (1 / 100, [])]"]
  by (simp add: example_fields)

section \<open>The modified explicit Euler scheme\<close>

text \<open>
  C6, as the claim states it, fails for the mass-spring representation: between the
  update of the velocities and the update of the positions, the velocities of the
  boundary nodes are set to zero. In the example representation without gravity the
  accelerations are zero, node 0 is a boundary condition and has the velocity (1,0,0); one
  \<^verbatim>\<open>update\<close> with the modified scheme changes that velocity to zero and leaves the node
  where it was, while the free node 1 drifts from 1 to 2 along x.
\<close>

theorem boundary_velocity_zeroed_under_zero_force_counterexample:
  "computeAccelerations noSpringForce
     (exampleMassSpring False INTEGRATIONSCHEME_MODIFIED_EXPLICIT_EULER [1, 0, 0, 2, 0, 0])
     = [0, 0, 0, 0, 0, 0] \<and>
   m_v (exampleMassSpring False INTEGRATIONSCHEME_MODIFIED_EXPLICIT_EULER [1, 0, 0, 2, 0, 0])
     = [1, 0, 0, 2, 0, 0] \<and>
   m_v (update noSpringForce
         (exampleMassSpring False INTEGRATIONSCHEME_MODIFIED_EXPLICIT_EULER [1, 0, 0, 2, 0, 0]) (1 / 2))
     = [0, 0, 0, 2, 0, 0] \<and>
   m_x (update noSpringForce
         (exampleMassSpring False INTEGRATIONSCHEME_MODIFIED_EXPLICIT_EULER [1, 0, 0, 2, 0, 0]) (1 / 2))
     = [0, 0, 0, 2, 0, 0]"
proof -
  let ?s = "exampleMassSpring False INTEGRATIONSCHEME_MODIFIED_EXPLICIT_EULER [1, 0, 0, 2, 0, 0]"
  have a: "computeAccelerations noSpringForce ?s = [0, 0, 0, 0, 0, 0]"
    using computeAccelerations_no_force [of ?s noSpringForce]
    by (simp add: example_fields numeral_eq_Suc)
  show ?thesis
    by (simp add: a update_active example_fields example_zeroBoundaryVelocities
        vecAdd_def vecScale_def)
qed

text \<open>
  C6, amended. \<^verbatim>\<open>ModifiedExplicitEuler::solve\<close> takes the force and the mass matrix at the
  current state, lets the linear solver solve the system of matrix M/\<open>dt\<close> for \<open>deltaV\<close>,
  and returns the velocity v + \<open>deltaV\<close>, the position x + \<open>dt\<close> times that new velocity and
  the acceleration \<open>deltaV\<close>/\<open>dt\<close>. So the new velocity is the current one plus \<open>dt\<close> times
  the returned acceleration, the new position is the current one plus \<open>dt\<close> times the new
  velocity, and when the linear solver's result solves its system the returned
  acceleration \<open>a\<close> solves M a = f for the force and mass of the current state. When the
  force is zero in every state (and the linear solver maps a zero right-hand side to the
  zero vector), any number of consecutive calls leave the velocity unchanged and advance
  the position by the number of calls times \<open>dt\<close> times the velocity.
  \<^verbatim>\<open>MassSpringRepresentation\<close> with the modified scheme does the same with the
  accelerations it computes at the current state (the total force divided by the masses),
  except that it sets the velocities of its boundary nodes to zero before it advances the
  positions. Under zero total force at every tick of a run, after any positive number of
  ticks the velocities are the initial ones with the boundary nodes' components set to
  zero, all other components unchanged, and the positions have advanced by the sum of the
  time steps times these velocities.
\<close>

theorem modified_euler_velocity_then_position:
  "fst (ModifiedExplicitEuler_solve sai eq solver dt cur new) =
     (let deltaV = fst (sai (matScale (computeM eq cur) (1 / dt)) (computeF eq cur));
          v = vecAdd (getVelocities cur) deltaV
      in new\<lparr> getPositions := vecAdd (getPositions cur) (vecScale dt v),
               getVelocities := v,
               getAccelerations := vecDiv deltaV dt \<rparr>) \<and>
   (dt \<noteq> 0 \<longrightarrow>
      getVelocities (fst (ModifiedExplicitEuler_solve sai eq solver dt cur new)) =
        vecAdd (getVelocities cur)
          (vecScale dt (getAccelerations (fst (ModifiedExplicitEuler_solve sai eq solver dt cur new)))) \<and>
      getPositions (fst (ModifiedExplicitEuler_solve sai eq solver dt cur new)) =
        vecAdd (getPositions cur)
          (vecScale dt (getVelocities (fst (ModifiedExplicitEuler_solve sai eq solver dt cur new))))) \<and>
   (dt \<noteq> 0 \<and>
    mulMatVec (matScale (computeM eq cur) (1 / dt))
      (fst (sai (matScale (computeM eq cur) (1 / dt)) (computeF eq cur))) = computeF eq cur \<longrightarrow>
      mulMatVec (computeM eq cur)
        (getAccelerations (fst (ModifiedExplicitEuler_solve sai eq solver dt cur new))) =
      computeF eq cur) \<and>
   (dt \<noteq> 0 \<and> (\<forall>state. computeF eq state = replicate n 0) \<and>
    (\<forall>A. fst (sai A (replicate n 0)) = replicate n 0) \<and>
    length (getVelocities cur) = n \<and> length (getPositions cur) = n \<longrightarrow>
      getVelocities (ModifiedExplicitEuler_run sai eq dt solver cur buffers) = getVelocities cur \<and>
      getPositions (ModifiedExplicitEuler_run sai eq dt solver cur buffers) =
        vecAdd (getPositions cur) (vecScale (real (length buffers) * dt) (getVelocities cur))) \<and>
   computeAccelerations getF s = divideByMass s (computeForces getF s) \<and>
   (isActive s \<and> m_integrationScheme s = INTEGRATIONSCHEME_MODIFIED_EXPLICIT_EULER \<longrightarrow>
      m_v (update getF s dt) =
        zeroBoundaryVelocities (m_boundaryConditions s)
          (vecAdd (m_v s) (vecScale dt (computeAccelerations getF s))) \<and>
      m_x (update getF s dt) = vecAdd (m_x s) (vecScale dt (m_v (update getF s dt)))) \<and>
   (isActive s \<and> m_integrationScheme s = INTEGRATIONSCHEME_MODIFIED_EXPLICIT_EULER \<and>
    (\<forall>vertex \<in> set (getVertices (m_finalState s)). getMass (vertexData vertex) \<noteq> 0) \<and>
    length (m_v s) = length (m_f s) \<and> length (m_x s) = length (m_v s) \<and> inputs \<noteq> [] \<and>
    zeroTotalForce getF s inputs \<longrightarrow>
      m_v (run getF s inputs) = zeroBoundaryVelocities (m_boundaryConditions s) (m_v s) \<and>
      m_x (run getF s inputs) =
        vecAdd (m_x s) (vecScale (sum_list (map fst inputs))
          (zeroBoundaryVelocities (m_boundaryConditions s) (m_v s)))) \<and>
   (i < length (m_v s) \<longrightarrow>
      zeroBoundaryVelocities (m_boundaryConditions s) (m_v s) ! i =
        (if i div 3 \<in> set (m_boundaryConditions s) then 0 else m_v s ! i))"
proof (intro conjI impI)
  show "fst (ModifiedExplicitEuler_solve sai eq solver dt cur new) =
     (let deltaV = fst (sai (matScale (computeM eq cur) (1 / dt)) (computeF eq cur));
          v = vecAdd (getVelocities cur) deltaV
      in new\<lparr> getPositions := vecAdd (getPositions cur) (vecScale dt v),
               getVelocities := v,
               getAccelerations := vecDiv deltaV dt \<rparr>)"
    by (rule ModifiedExplicitEuler_solve_state)
next
  assume "dt \<noteq> 0"
  then show "getVelocities (fst (ModifiedExplicitEuler_solve sai eq solver dt cur new)) =
        vecAdd (getVelocities cur)
          (vecScale dt (getAccelerations (fst (ModifiedExplicitEuler_solve sai eq solver dt cur new))))"
    and "getPositions (fst (ModifiedExplicitEuler_solve sai eq solver dt cur new)) =
        vecAdd (getPositions cur)
          (vecScale dt (getVelocities (fst (ModifiedExplicitEuler_solve sai eq solver dt cur new))))"
    using ModifiedExplicitEuler_step_order [of dt sai eq solver cur new] by simp_all
next
  assume "dt \<noteq> 0 \<and>
    mulMatVec (matScale (computeM eq cur) (1 / dt))
      (fst (sai (matScale (computeM eq cur) (1 / dt)) (computeF eq cur))) = computeF eq cur"
  then show "mulMatVec (computeM eq cur)
        (getAccelerations (fst (ModifiedExplicitEuler_solve sai eq solver dt cur new))) =
      computeF eq cur"
    by (intro ModifiedExplicitEuler_acceleration_solves) simp
next
  assume h: "dt \<noteq> 0 \<and> (\<forall>state. computeF eq state = replicate n 0) \<and>
    (\<forall>A. fst (sai A (replicate n 0)) = replicate n 0) \<and>
    length (getVelocities cur) = n \<and> length (getPositions cur) = n"
  then have r: "getVelocities (ModifiedExplicitEuler_run sai eq dt solver cur buffers) = getVelocities cur \<and>
      getPositions (ModifiedExplicitEuler_run sai eq dt solver cur buffers) =
        vecAdd (getPositions cur) (vecScale (real (length buffers) * dt) (getVelocities cur))"
    by (intro ModifiedExplicitEuler_zero_force_run) simp_all
  from r show "getVelocities (ModifiedExplicitEuler_run sai eq dt solver cur buffers) = getVelocities cur"
    by simp
  from r show "getPositions (ModifiedExplicitEuler_run sai eq dt solver cur buffers) =
        vecAdd (getPositions cur) (vecScale (real (length buffers) * dt) (getVelocities cur))"
    by simp
next
  show "computeAccelerations getF s = divideByMass s (computeForces getF s)"
    by (rule computeAccelerations_computeForces)
next
  assume h: "isActive s \<and> m_integrationScheme s = INTEGRATIONSCHEME_MODIFIED_EXPLICIT_EULER"
  then show "m_v (update getF s dt) =
        zeroBoundaryVelocities (m_boundaryConditions s)
          (vecAdd (m_v s) (vecScale dt (computeAccelerations getF s)))"
    by (simp add: update_active)
  from h show "m_x (update getF s dt) = vecAdd (m_x s) (vecScale dt (m_v (update getF s dt)))"
    by (simp add: update_active)
next
  assume h: "isActive s \<and> m_integrationScheme s = INTEGRATIONSCHEME_MODIFIED_EXPLICIT_EULER \<and>
    (\<forall>vertex \<in> set (getVertices (m_finalState s)). getMass (vertexData vertex) \<noteq> 0) \<and>
    length (m_v s) = length (m_f s) \<and> length (m_x s) = length (m_v s) \<and> inputs \<noteq> [] \<and>
    zeroTotalForce getF s inputs"
  then have r: "m_v (run getF s inputs) = zeroBoundaryVelocities (m_boundaryConditions s) (m_v s) \<and>
      m_x (run getF s inputs) =
        vecAdd (m_x s) (vecScale (sum_list (map fst inputs))
          (zeroBoundaryVelocities (m_boundaryConditions s) (m_v s)))"
    by (intro run_zero_force) simp_all
  from r show "m_v (run getF s inputs) = zeroBoundaryVelocities (m_boundaryConditions s) (m_v s)"
    by simp
  from r show "m_x (run getF s inputs) =
        vecAdd (m_x s) (vecScale (sum_list (map fst inputs))
          (zeroBoundaryVelocities (m_boundaryConditions s) (m_v s)))"
    by simp
next
  assume "i < length (m_v s)"
  then show "zeroBoundaryVelocities (m_boundaryConditions s) (m_v s) ! i =
        (if i div 3 \<in> set (m_boundaryConditions s) then 0 else m_v s ! i)"
    by (rule nth_zeroBoundaryVelocities)
qed

theorem modified_euler_velocity_then_position_witness:
  "(1 / 2 :: real) \<noteq> 0 \<and>
   fst (ModifiedExplicitEuler_solve solveAndInverseDiagonal (exampleEquation 1) freshSolver (1 / 2)
          (exampleState 0 0) (exampleState 0 0))
     = \<lparr> getPositions = [1 / 8], getVelocities = [1 / 4], getAccelerations = [1 / 2] \<rparr> \<and>
   mulMatVec (computeM (exampleEquation 1) (exampleState 0 0)) [1 / 2] =
     computeF (exampleEquation 1) (exampleState 0 0) \<and>
   computeF (exampleEquation 0) (exampleState 1 3) = replicate 1 0 \<and>
   getVelocities (ModifiedExplicitEuler_run solveAndInverseDiagonal (exampleEquation 0) (1 / 2)
      freshSolver (exampleState 1 3) [exampleState 0 0, exampleState 0 0]) = [3] \<and>
   getPositions (ModifiedExplicitEuler_run solveAndInverseDiagonal (exampleEquation 0) (1 / 2)
      freshSolver (exampleState 1 3) [exampleState 0 0, exampleState 0 0]) = [4] \<and>
   zeroTotalForce exampleSpringForce
     (exampleChain [0, 0, 0, 1, 0, 0, 2, 0, 0] [1, 0, 0, 0, 2, 0, 0, 2, 0])
     [(1 / 2, []), (1 / 2, [])] \<and>
   m_v (run exampleSpringForce
          (exampleChain [0, 0, 0, 1, 0, 0, 2, 0, 0] [1, 0, 0, 0, 2, 0, 0, 2, 0])
          [(1 / 2, []), (1 / 2, [])]) = [0, 0, 0, 0, 2, 0, 0, 2, 0] \<and>
   m_x (run exampleSpringForce
          (exampleChain [0, 0, 0, 1, 0, 0, 2, 0, 0] [1, 0, 0, 0, 2, 0, 0, 2, 0])
          [(1 / 2, []), (1 / 2, [])]) = [0, 0, 0, 1, 2, 0, 2, 2, 0]"
proof -
  let ?s = "exampleChain [0, 0, 0, 1, 0, 0, 2, 0, 0] [1, 0, 0, 0, 2, 0, 0, 2, 0]"
  note first = modified_euler_velocity_then_position [where dt = "1 / 2"
      and sai = solveAndInverseDiagonal and eq = "exampleEquation 1" and solver = freshSolver
      and cur = "exampleState 0 0" and new = "exampleState 0 0"]
  have solves: "mulMatVec (matScale (computeM (exampleEquation 1) (exampleState 0 0)) (1 / (1 / 2)))
      (fst (solveAndInverseDiagonal
              (matScale (computeM (exampleEquation 1) (exampleState 0 0)) (1 / (1 / 2)))
              (computeF (exampleEquation 1) (exampleState 0 0)))) =
      computeF (exampleEquation 1) (exampleState 0 0)"
    by (simp add: exampleEquation_def solveAndInverseDiagonal_def matScale_def mulMatVec_def)
  have one: "fst (ModifiedExplicitEuler_solve solveAndInverseDiagonal (exampleEquation 1) freshSolver
          (1 / 2) (exampleState 0 0) (exampleState 0 0))
     = \<lparr> getPositions = [1 / 8], getVelocities = [1 / 4], getAccelerations = [1 / 2] \<rparr>"
    using first
    by (simp add: Let_def exampleEquation_def exampleState_def solveAndInverseDiagonal_def
      matScale_def vecAdd_def vecScale_def vecDiv_def)
  have acc: "mulMatVec (computeM (exampleEquation 1) (exampleState 0 0)) [1 / 2] =
     computeF (exampleEquation 1) (exampleState 0 0)"
    using first solves one by simp
  have force: "\<forall>state. computeF (exampleEquation 0) state = replicate 1 0"
    by (simp add: exampleEquation_def)
  have solver: "\<forall>A. fst (solveAndInverseDiagonal A (replicate 1 0)) = replicate 1 0"
    by (simp add: solveAndInverseDiagonal_def)
  have len: "length (getVelocities (exampleState 1 3)) = 1" "length (getPositions (exampleState 1 3)) = 1"
    by (simp_all add: exampleState_def)
  have masses: "\<forall>vertex \<in> set (getVertices (m_finalState ?s)). getMass (vertexData vertex) \<noteq> 0"
    by (simp add: exampleChain_def)
  note inst = modified_euler_velocity_then_position [where dt = "1 / 2" and sai = solveAndInverseDiagonal
      and eq = "exampleEquation 0" and solver = freshSolver and cur = "exampleState 1 3"
      and buffers = "[exampleState 0 0, exampleState 0 0]" and n = 1
      and s = ?s and getF = exampleSpringForce and inputs = "[(1 / 2, []), (1 / 2, [])]"]
  have ode: "getVelocities (ModifiedExplicitEuler_run solveAndInverseDiagonal (exampleEquation 0) (1 / 2)
      freshSolver (exampleState 1 3) [exampleState 0 0, exampleState 0 0]) = [3] \<and>
    getPositions (ModifiedExplicitEuler_run solveAndInverseDiagonal (exampleEquation 0) (1 / 2)
      freshSolver (exampleState 1 3) [exampleState 0 0, exampleState 0 0]) = [4]"
    using inst force solver len
    by (simp add: exampleState_def vecAdd_def vecScale_def)
  have ms: "m_v (run exampleSpringForce ?s [(1 / 2, []), (1 / 2, [])]) = [0, 0, 0, 0, 2, 0, 0, 2, 0] \<and>
    m_x (run exampleSpringForce ?s [(1 / 2, []), (1 / 2, [])]) = [0, 0, 0, 1, 2, 0, 2, 2, 0]"
    using inst masses exampleChain_zeroTotalForce
    by (simp add: exampleChain_fields exampleChain_zeroBoundaryVelocities vecAdd_def vecScale_def)
  show ?thesis using one acc ode ms force exampleChain_zeroTotalForce by simp
qed

section \<open>The linear variant of the modified explicit Euler solver\<close>

text \<open>
  A call of the linear variant after the first one: the velocities and positions are those
  of \<^verbatim>\<open>ModifiedExplicitEuler::solve\<close> whenever the cached compliance applied to the force
  is what the linear solver returns for the current system; the accelerations are the ones
  found in the buffer, divided by \<open>dt\<close>.
\<close>

lemma LinearModifiedExplicitEuler_later_call:
  assumes "m_initialized solver"
  shows "fst (LinearModifiedExplicitEuler_solve sai eq solver dt cur new) =
     (let deltaV = mulMatVec (m_compliance solver) (computeF eq cur);
          v = vecAdd (getVelocities cur) deltaV
      in new\<lparr> getPositions := vecAdd (getPositions cur) (vecScale dt v),
               getVelocities := v,
               getAccelerations := vecDiv (getAccelerations new) dt \<rparr>)"
  using assms by (simp add: LinearModifiedExplicitEuler_solve_def Let_def)

lemma LinearModifiedExplicitEuler_later_call_velocities_positions:
  assumes "m_initialized solver"
    and "mulMatVec (m_compliance solver) (computeF eq cur) =
         fst (sai (matScale (computeM eq cur) (1 / dt)) (computeF eq cur))"
  shows "getVelocities (fst (LinearModifiedExplicitEuler_solve sai eq solver dt cur new)) =
         getVelocities (fst (ModifiedExplicitEuler_solve sai eq solver' dt cur new)) \<and>
     getPositions (fst (LinearModifiedExplicitEuler_solve sai eq solver dt cur new)) =
         getPositions (fst (ModifiedExplicitEuler_solve sai eq solver' dt cur new)) \<and>
     getAccelerations (fst (LinearModifiedExplicitEuler_solve sai eq solver dt cur new)) =
         vecDiv (getAccelerations new) dt"
  using assms
  by (simp add: LinearModifiedExplicitEuler_later_call ModifiedExplicitEuler_solve_state Let_def)

text \<open>
  C7 at its failing input: a system of one degree of freedom with mass 2 and the constant
  force 1, \<open>dt\<close> = 1/2, two calls, each writing into a buffer whose accelerations are 0.
  The second call of \<^verbatim>\<open>LinearModifiedExplicitEuler::solve\<close> computes \<^verbatim>\<open>deltaV\<close> in a local
  vector and divides the accelerations already in the buffer by \<open>dt\<close>; it returns the
  acceleration 0. \<^verbatim>\<open>ModifiedExplicitEuler::solve\<close> returns the acceleration 1/2 (the force
  over the mass). Positions and velocities are the same.
\<close>

theorem linear_solver_leaves_accelerations:
  "LinearModifiedExplicitEuler_run solveAndInverseDiagonal (exampleEquation 1) (1 / 2) freshSolver
     (exampleState 0 0) [exampleState 0 0, exampleState 0 0]
   = \<lparr> getPositions = [3 / 8], getVelocities = [1 / 2], getAccelerations = [0] \<rparr> \<and>
   ModifiedExplicitEuler_run solveAndInverseDiagonal (exampleEquation 1) (1 / 2) freshSolver
     (exampleState 0 0) [exampleState 0 0, exampleState 0 0]
   = \<lparr> getPositions = [3 / 8], getVelocities = [1 / 2], getAccelerations = [1 / 2] \<rparr>"
  by (simp add: LinearModifiedExplicitEuler_solve_def ModifiedExplicitEuler_solve_def Let_def
      exampleEquation_def exampleState_def freshSolver_def solveAndInverseDiagonal_def
      matScale_def vecAdd_def vecScale_def vecDiv_def mulMatVec_def)

end
